theory Spec2Isabelle
  imports Main
begin

section \<open>Python values\<close>

text \<open>
  The program keeps all of its data in loosely typed Python objects: the store document
  returned by \<^verbatim>\<open>json.load\<close>, the template dictionaries and the \<^verbatim>\<open>invoice_data\<close>
  dictionary. They are embedded as one datatype of Python values. A \<^verbatim>\<open>dict\<close> is an
  association list in insertion order (Python dictionaries keep it, and
  \<^verbatim>\<open>list_templates\<close> exposes it); its keys are strings, as the keys of every
  dictionary of this program are, and are meant to be distinct.

  A \<^verbatim>\<open>float\<close> is either finite, \<open>Finite s m k\<close> standing for the exact value
  \<open>(-1)\<^sup>s * m / 2\<^sup>k\<close> (every finite binary64 number is of this form, and the sign is
  kept apart so that \<^verbatim>\<open>-0.0\<close> exists), or an infinity, or a NaN. A string is a list
  of bytes (UTF-8).
\<close>

datatype pyfloat = Finite bool nat nat | Infinity bool | NaN

datatype pyval =
    VNone
  | VBool bool
  | VInt int
  | VFloat pyfloat
  | VStr string
  | VList "pyval list"
  | VDict "(string \<times> pyval) list"

text \<open>The exceptions that the modelled code can raise.\<close>

datatype error =
    KeyError string
  | TypeError
  | AttributeError
  | ValueError
  | OverflowError
  | JSONDecodeError
  | EOFError

text \<open>Truth value testing (\<^verbatim>\<open>if x:\<close>, \<^verbatim>\<open>x or y\<close>, \<^verbatim>\<open>x and y\<close>).\<close>

fun float_truthy :: "pyfloat \<Rightarrow> bool" where
  "float_truthy (Finite s m k) = (m \<noteq> 0)"
| "float_truthy (Infinity s) = True"
| "float_truthy NaN = True"

fun truthy :: "pyval \<Rightarrow> bool" where
  "truthy VNone = False"
| "truthy (VBool b) = b"
| "truthy (VInt n) = (n \<noteq> 0)"
| "truthy (VFloat f) = float_truthy f"
| "truthy (VStr s) = (s \<noteq> [])"
| "truthy (VList xs) = (xs \<noteq> [])"
| "truthy (VDict kvs) = (kvs \<noteq> [])"

text \<open>Truthiness of an optional command-line string (\<^verbatim>\<open>None\<close> when the flag is not given).\<close>

fun str_truthy :: "string option \<Rightarrow> bool" where
  "str_truthy None = False"
| "str_truthy (Some s) = (s \<noteq> [])"

fun amount_truthy :: "pyfloat option \<Rightarrow> bool" where
  "amount_truthy None = False"
| "amount_truthy (Some f) = float_truthy f"

subsection \<open>Subscripting, membership and \<^verbatim>\<open>dict.get\<close> with a string key\<close>

text \<open>\<^verbatim>\<open>needle in haystack\<close> for two strings: the substring test.\<close>

fun str_contains :: "string \<Rightarrow> string \<Rightarrow> bool" where
  "str_contains needle [] = (needle = [])"
| "str_contains needle (c # cs) =
     (take (length needle) (c # cs) = needle \<or> str_contains needle cs)"

text \<open>\<^verbatim>\<open>key in obj\<close>: keys of a dict, elements of a list, substrings of a string; the
  other values are not iterable.\<close>

fun py_in :: "string \<Rightarrow> pyval \<Rightarrow> error + bool" where
  "py_in key (VDict kvs) = Inr (key \<in> set (map fst kvs))"
| "py_in key (VList xs) = Inr (VStr key \<in> set xs)"
| "py_in key (VStr s) = Inr (str_contains key s)"
| "py_in key v = Inl TypeError"

text \<open>\<^verbatim>\<open>obj[key]\<close>: only a dict can be subscripted with a string.\<close>

fun getitem :: "pyval \<Rightarrow> string \<Rightarrow> error + pyval" where
  "getitem (VDict kvs) key =
     (case map_of kvs key of None \<Rightarrow> Inl (KeyError key) | Some v \<Rightarrow> Inr v)"
| "getitem v key = Inl TypeError"

text \<open>\<^verbatim>\<open>d[key] = v\<close> on an association list: an existing key keeps its place, a new key
  goes last.\<close>

fun dict_set :: "string \<Rightarrow> pyval \<Rightarrow> (string \<times> pyval) list \<Rightarrow> (string \<times> pyval) list" where
  "dict_set key v [] = [(key, v)]"
| "dict_set key v (p # ps) = (if fst p = key then (key, v) # ps else p # dict_set key v ps)"

fun setitem :: "pyval \<Rightarrow> string \<Rightarrow> pyval \<Rightarrow> error + pyval" where
  "setitem (VDict kvs) key v = Inr (VDict (dict_set key v kvs))"
| "setitem obj key v = Inl TypeError"

text \<open>\<^verbatim>\<open>obj.get(key, default)\<close>: only a dict has the method.\<close>

fun py_get :: "pyval \<Rightarrow> string \<Rightarrow> pyval \<Rightarrow> error + pyval" where
  "py_get (VDict kvs) key dflt =
     (case map_of kvs key of None \<Rightarrow> Inr dflt | Some v \<Rightarrow> Inr v)"
| "py_get v key dflt = Inl AttributeError"

text \<open>\<^verbatim>\<open>list(obj.keys())\<close>.\<close>

fun py_keys :: "pyval \<Rightarrow> error + string list" where
  "py_keys (VDict kvs) = Inr (map fst kvs)"
| "py_keys v = Inl AttributeError"

section \<open>Formatting numbers\<close>

definition digit_char :: "nat \<Rightarrow> char" where
  "digit_char d = ''0123456789'' ! d"

text \<open>The decimal digits of a natural number, most significant first (\<^verbatim>\<open>str(n)\<close>).\<close>

fun str_nat :: "nat \<Rightarrow> string" where
  "str_nat n = (if n < 10 then [digit_char n] else str_nat (n div 10) @ [digit_char (n mod 10)])"

declare str_nat.simps [simp del]

definition zfill :: "nat \<Rightarrow> string \<Rightarrow> string" where
  "zfill w s = replicate (w - length s) (CHR ''0'') @ s"

text \<open>
  The format specification \<^verbatim>\<open>04d\<close> on an integer: zero fill to a minimum width of 4,
  the sign (if any) first and counted in the width.
\<close>

definition format_04d_int :: "int \<Rightarrow> string" where
  "format_04d_int n =
     (if n < 0 then CHR ''-'' # zfill 3 (str_nat (nat (- n))) else zfill 4 (str_nat (nat n)))"

text \<open>
  \<^verbatim>\<open>f"{v:04d}"\<close> on a Python value: integers (and booleans, which are integers) are
  formatted; a float or a string rejects the code \<^verbatim>\<open>d\<close> with \<^verbatim>\<open>ValueError\<close>; the remaining
  types reject any non-empty format specification with \<^verbatim>\<open>TypeError\<close>.
\<close>

fun format_04d :: "pyval \<Rightarrow> error + string" where
  "format_04d (VInt n) = Inr (format_04d_int n)"
| "format_04d (VBool b) = Inr (format_04d_int (if b then 1 else 0))"
| "format_04d (VFloat f) = Inl ValueError"
| "format_04d (VStr s) = Inl ValueError"
| "format_04d v = Inl TypeError"

section \<open>InvoiceNumberManager\<close>

text \<open>
  The backing file \<^verbatim>\<open>invoice_data.json\<close>: absent, present with a content that
  \<^verbatim>\<open>json.load\<close> rejects, or present with the content that \<^verbatim>\<open>json.load\<close> returns.
  \<^verbatim>\<open>json.dump\<close> followed by \<^verbatim>\<open>json.load\<close> gives the value back, so a saved
  document is kept as the value itself.
\<close>

datatype file_state = NoFile | Unparseable | Parsed pyval

text \<open>\<^verbatim>\<open>_load_data\<close> (lines 26-31).\<close>

definition load_data :: "file_state \<Rightarrow> error + pyval" where
  "load_data f =
     (case f of
        NoFile \<Rightarrow> Inr (VDict [(''last_invoice_number'', VInt 0), (''templates'', VDict [])])
      | Unparseable \<Rightarrow> Inl JSONDecodeError
      | Parsed v \<Rightarrow> Inr v)"

text \<open>\<^verbatim>\<open>_save_data\<close> (lines 33-36): the whole document replaces the file.\<close>

definition save_data :: "pyval \<Rightarrow> file_state" where
  "save_data d = Parsed d"

text \<open>
  \<^verbatim>\<open>x + 1\<close> as \<^verbatim>\<open>+=\<close> computes it. The sum of a finite float and 1 is given exactly;
  the rounding of binary64 addition is not modelled.
\<close>

fun float_add1 :: "pyfloat \<Rightarrow> pyfloat" where
  "float_add1 (Finite s m k) =
     (if \<not> s then Finite False (m + 2 ^ k) k
      else if m \<le> 2 ^ k then Finite False (2 ^ k - m) k
      else Finite True (m - 2 ^ k) k)"
| "float_add1 (Infinity s) = Infinity s"
| "float_add1 NaN = NaN"

fun py_add1 :: "pyval \<Rightarrow> error + pyval" where
  "py_add1 (VInt n) = Inr (VInt (n + 1))"
| "py_add1 (VBool b) = Inr (VInt ((if b then 1 else 0) + 1))"
| "py_add1 (VFloat f) = Inr (VFloat (float_add1 f))"
| "py_add1 v = Inl TypeError"

text \<open>
  The state of a manager is its attribute \<^verbatim>\<open>self.data\<close>; the file is the other piece
  of state. Every method takes both and returns the result (or the exception) with both
  as they are when it returns or raises.

  \<^verbatim>\<open>get_next_invoice_number\<close> (lines 38-42): the counter is read, incremented and stored
  into \<^verbatim>\<open>self.data\<close>, the document is saved, and only then is the number formatted.
\<close>

definition get_next_invoice_number ::
  "pyval \<Rightarrow> file_state \<Rightarrow> (error + string) \<times> pyval \<times> file_state" where
  "get_next_invoice_number data file =
     (case getitem data ''last_invoice_number'' of
        Inl e \<Rightarrow> (Inl e, data, file)
      | Inr v \<Rightarrow>
          (case py_add1 v of
             Inl e \<Rightarrow> (Inl e, data, file)
           | Inr v' \<Rightarrow>
               (case setitem data ''last_invoice_number'' v' of
                  Inl e \<Rightarrow> (Inl e, data, file)
                | Inr data' \<Rightarrow>
                    (case getitem data' ''last_invoice_number'' of
                       Inl e \<Rightarrow> (Inl e, data', save_data data')
                     | Inr w \<Rightarrow> (format_04d w, data', save_data data')))))"

text \<open>\<^verbatim>\<open>get_current_invoice_number\<close> (lines 44-46).\<close>

definition get_current_invoice_number :: "pyval \<Rightarrow> error + string" where
  "get_current_invoice_number data =
     (case getitem data ''last_invoice_number'' of
        Inl e \<Rightarrow> Inl e
      | Inr v \<Rightarrow> format_04d v)"

text \<open>\<^verbatim>\<open>save_template\<close> (lines 48-53).\<close>

definition save_template ::
  "string \<Rightarrow> pyval \<Rightarrow> pyval \<Rightarrow> file_state \<Rightarrow> (error + unit) \<times> pyval \<times> file_state" where
  "save_template name template_data data file =
     (case py_in ''templates'' data of
        Inl e \<Rightarrow> (Inl e, data, file)
      | Inr present \<Rightarrow>
          (case (if present then Inr data else setitem data ''templates'' (VDict [])) of
             Inl e \<Rightarrow> (Inl e, data, file)
           | Inr data1 \<Rightarrow>
               (case getitem data1 ''templates'' of
                  Inl e \<Rightarrow> (Inl e, data1, file)
                | Inr ts \<Rightarrow>
                    (case setitem ts name template_data of
                       Inl e \<Rightarrow> (Inl e, data1, file)
                     | Inr ts' \<Rightarrow>
                         (case setitem data1 ''templates'' ts' of
                            Inl e \<Rightarrow> (Inl e, data1, file)
                          | Inr data2 \<Rightarrow> (Inr (), data2, save_data data2))))))"

text \<open>\<^verbatim>\<open>load_template\<close> (lines 55-59); \<open>VNone\<close> is Python's \<^verbatim>\<open>None\<close>.\<close>

definition load_template :: "string \<Rightarrow> pyval \<Rightarrow> error + pyval" where
  "load_template name data =
     (case py_in ''templates'' data of
        Inl e \<Rightarrow> Inl e
      | Inr present \<Rightarrow>
          if \<not> present then Inr VNone
          else (case getitem data ''templates'' of
                  Inl e \<Rightarrow> Inl e
                | Inr ts \<Rightarrow> py_get ts name VNone))"

text \<open>\<^verbatim>\<open>list_templates\<close> (lines 61-65).\<close>

definition list_templates :: "pyval \<Rightarrow> error + string list" where
  "list_templates data =
     (case py_in ''templates'' data of
        Inl e \<Rightarrow> Inl e
      | Inr present \<Rightarrow>
          if \<not> present then Inr []
          else (case getitem data ''templates'' of
                  Inl e \<Rightarrow> Inl e
                | Inr ts \<Rightarrow> py_keys ts))"

text \<open>
  One allocation as the program performs it: a manager is constructed, which loads the
  document (lines 22-24, 387 and 317), and \<^verbatim>\<open>get_next_invoice_number\<close> is called on it
  (lines 415 and 318). The result comes with the file as the call leaves it.
\<close>

definition allocate_next :: "file_state \<Rightarrow> (error + string) \<times> file_state" where
  "allocate_next file =
     (case load_data file of
        Inl e \<Rightarrow> (Inl e, file)
      | Inr data \<Rightarrow>
          (case get_next_invoice_number data file of (r, data', file') \<Rightarrow> (r, file')))"

text \<open>The counter that a load of the file finds, when it is an integer.\<close>

definition stored_counter :: "file_state \<Rightarrow> int option" where
  "stored_counter file =
     (case load_data file of
        Inr (VDict kvs) \<Rightarrow>
          (case map_of kvs ''last_invoice_number'' of Some (VInt n) \<Rightarrow> Some n | _ \<Rightarrow> None)
      | _ \<Rightarrow> None)"

section \<open>Formatting the amount\<close>

text \<open>\<open>n / d\<close> rounded to the nearest integer, a tie going to the even neighbour
  (\<open>d\<close> is positive).\<close>

definition round_half_even :: "nat \<Rightarrow> nat \<Rightarrow> nat" where
  "round_half_even n d =
     (let q = n div d; r = n mod d
      in if 2 * r < d then q
         else if d < 2 * r then q + 1
         else if even q then q else q + 1)"

text \<open>The thousands separator: a comma before every group of three digits, counted from
  the right.\<close>

fun group3 :: "string \<Rightarrow> string" where
  "group3 ds =
     (if length ds \<le> 3 then ds
      else group3 (take (length ds - 3) ds) @ CHR '','' # drop (length ds - 3) ds)"

declare group3.simps [simp del]

text \<open>
  The format specification \<^verbatim>\<open>,.2f\<close> on a float. Python converts the exact binary value
  to the nearest decimal with two fractional digits (ties to even), keeps the sign of
  the float (so \<^verbatim>\<open>-0.0\<close> and \<^verbatim>\<open>-0.001\<close> give \<^verbatim>\<open>-0.00\<close>), and groups the integer digits.
  \<open>c\<close> below is the rounded number of hundredths.
\<close>

fun format_2f :: "pyfloat \<Rightarrow> string" where
  "format_2f (Finite s m k) =
     (let c = round_half_even (100 * m) (2 ^ k)
      in (if s then ''-'' else '''') @ group3 (str_nat (c div 100)) @ CHR ''.'' #
         zfill 2 (str_nat (c mod 100)))"
| "format_2f (Infinity s) = (if s then ''-'' else '''') @ ''inf''"
| "format_2f NaN = ''nan''"

text \<open>The number of binary digits of a natural number (\<^verbatim>\<open>int.bit_length\<close>).\<close>

fun bit_length :: "nat \<Rightarrow> nat" where
  "bit_length n = (if n = 0 then 0 else Suc (bit_length (n div 2)))"

declare bit_length.simps [simp del]

text \<open>
  An integer formatted with a float code is converted to a float first: exactly when it
  has at most 53 binary digits, otherwise rounded to 53 digits (ties to even), and
  \<^verbatim>\<open>OverflowError\<close> when the result leaves the range of binary64.
\<close>

definition float_of_int :: "int \<Rightarrow> error + pyfloat" where
  "float_of_int n =
     (let a = nat \<bar>n\<bar>; b = bit_length a
      in if b \<le> 53 then Inr (Finite (n < 0) a 0)
         else let v = round_half_even a (2 ^ (b - 53)) * 2 ^ (b - 53)
              in if 2 ^ 1024 \<le> v then Inl OverflowError else Inr (Finite (n < 0) v 0))"

text \<open>The f-string \<^verbatim>\<open>f"${v:,.2f}"\<close> (lines 194 and 217).\<close>

fun format_amount :: "pyval \<Rightarrow> error + string" where
  "format_amount (VFloat f) = Inr (CHR ''$'' # format_2f f)"
| "format_amount (VInt n) =
     (case float_of_int n of Inl e \<Rightarrow> Inl e | Inr f \<Rightarrow> Inr (CHR ''$'' # format_2f f))"
| "format_amount (VBool b) =
     (case float_of_int (if b then 1 else 0) of
        Inl e \<Rightarrow> Inl e
      | Inr f \<Rightarrow> Inr (CHR ''$'' # format_2f f))"
| "format_amount (VStr s) = Inl ValueError"
| "format_amount v = Inl TypeError"

section \<open>InvoiceGenerator\<close>

text \<open>
  The layout handed to the typesetting library. What the program passes as a text is
  either a Python object as it is (\<open>Obj\<close>: a string literal, a value of
  \<^verbatim>\<open>invoice_data\<close>, a string computed by a format specification) or an f-string
  without format specifications, kept as its pieces: literal text and \<^verbatim>\<open>str()\<close> of a
  value (for a value that is a string, the string itself).

  The styles are constants of the source and are named after it: the paragraph styles
  of lines 85-103 and 251-260, and the table styles of lines 118-125, 198-210 and 221-228.
  A spacer is \<open>Spacer w h\<close> for \<^verbatim>\<open>Spacer(w, h/100 * inch)\<close>; column widths are in
  hundredths of an inch as well.
\<close>

datatype piece = Lit string | Str_of pyval

datatype content = Obj pyval | FString "piece list"

datatype style = CustomTitle | CustomHeading | Normal | Note

datatype table_style = HeaderTableStyle | LineItemsTableStyle | TotalTableStyle

datatype flowable =
    Paragraph content style
  | Spacer nat nat
  | Table "content list list" "nat list" table_style

text \<open>\<^verbatim>\<open>SimpleDocTemplate(filename, pagesize=letter, rightMargin=72, leftMargin=72,
  topMargin=72, bottomMargin=18)\<close> and the document built from it.\<close>

record doc_template =
  pagesize :: string
  rightMargin :: nat
  leftMargin :: nat
  topMargin :: nat
  bottomMargin :: nat

record pdf =
  template :: doc_template
  elements :: "flowable list"

definition letter_template :: doc_template where
  "letter_template =
     \<lparr>pagesize = ''letter'', rightMargin = 72, leftMargin = 72, topMargin = 72,
      bottomMargin = 18\<rparr>"

text \<open>Sequencing of computations that may raise.\<close>

definition and_then :: "error + 'a \<Rightarrow> ('a \<Rightarrow> error + 'b) \<Rightarrow> error + 'b" where
  "and_then m f = (case m of Inl e \<Rightarrow> Inl e | Inr x \<Rightarrow> f x)"

text \<open>
  The pattern \<^verbatim>\<open>if self.invoice_data.get(key): section.append(Paragraph(...))\<close> of
  lines 136-141 and 146-151: the lines appended, none when the field is missing or falsy.
\<close>

definition optional_line :: "pyval \<Rightarrow> string \<Rightarrow> (pyval \<Rightarrow> content) \<Rightarrow> error + flowable list" where
  "optional_line idata key mk =
     and_then (py_get idata key VNone) (\<lambda>v.
       if truthy v then and_then (getitem idata key) (\<lambda>v'. Inr [Paragraph (mk v') Normal])
       else Inr [])"

definition newline :: char where
  "newline = CHR 0x0A"

text \<open>
  The list \<^verbatim>\<open>elements\<close> of \<^verbatim>\<open>generate_pdf\<close> as it stands at line 269, or the first
  exception raised on the way (lines 105-266, in the order of evaluation).
\<close>

definition pdf_elements :: "pyval \<Rightarrow> error + flowable list" where
  "pdf_elements idata =
     and_then (getitem idata ''invoice_number'') (\<lambda>invoice_number.
     and_then (getitem idata ''issue_date'') (\<lambda>issue_date.
     and_then (optional_line idata ''contractor_name'' (\<lambda>v. Obj v)) (\<lambda>l1.
     and_then (optional_line idata ''contractor_cuil''
                (\<lambda>v. FString [Lit ''CUIL: '', Str_of v])) (\<lambda>l2.
     and_then (optional_line idata ''contractor_tax_status''
                (\<lambda>v. FString [Lit ''Tax Status: '', Str_of v])) (\<lambda>l3.
     and_then (optional_line idata ''client_name'' (\<lambda>v. Obj v)) (\<lambda>l4.
     and_then (optional_line idata ''client_address'' (\<lambda>v. Obj v)) (\<lambda>l5.
     and_then (optional_line idata ''client_ein''
                (\<lambda>v. FString [Lit ''EIN: '', Str_of v])) (\<lambda>l6.
     and_then (py_get idata ''service_description''
                (VStr ''Software engineering services'')) (\<lambda>d0.
     and_then (py_get idata ''service_period'' VNone) (\<lambda>p.
     and_then (if truthy p
               then and_then (getitem idata ''service_period'') (\<lambda>p'.
                      Inr (FString [Str_of d0, Lit [newline], Str_of p']))
               else Inr (Obj d0)) (\<lambda>description.
     and_then (getitem idata ''amount'') (\<lambda>a.
     and_then (format_amount a) (\<lambda>amount.
     and_then (getitem idata ''amount'') (\<lambda>a'.
     and_then (format_amount a') (\<lambda>total.
     and_then (getitem idata ''account_holder'') (\<lambda>holder.
     and_then (getitem idata ''dolartag'') (\<lambda>tag.
     and_then (py_get idata ''additional_payment_info'' VNone) (\<lambda>i.
     and_then (if truthy i
               then and_then (getitem idata ''additional_payment_info'') (\<lambda>i'.
                      Inr [Lit ''<br/>'', Str_of i'])
               else Inr []) (\<lambda>extra.
       let from_section = Paragraph (Obj (VStr ''<b>From:</b>'')) CustomHeading # l1 @ l2 @ l3;
           to_section = Paragraph (Obj (VStr ''<b>Bill To:</b>'')) CustomHeading # l4 @ l5 @ l6
       in Inr
          ([Paragraph (Obj (VStr ''INVOICE'')) CustomTitle,
            Spacer 1 20,
            Table [[Obj (VStr ''Invoice Number:''), Obj invoice_number],
                   [Obj (VStr ''Issue Date:''), Obj issue_date],
                   [Obj (VStr ''Currency:''), Obj (VStr ''USD'')]]
                  [200, 400] HeaderTableStyle,
            Spacer 1 30]
           @ (if from_section \<noteq> [] \<or> to_section \<noteq> []
              then from_section @ [Spacer 1 15] @ to_section @ [Spacer 1 20]
              else [])
           @ [Paragraph (Obj (VStr ''<b>Services</b>'')) CustomHeading,
              Spacer 1 10,
              Table [[Obj (VStr ''Description''), Obj (VStr ''Amount (USD)'')],
                     [description, Obj (VStr amount)]]
                    [450, 150] LineItemsTableStyle,
              Spacer 1 15,
              Table [[Obj (VStr ''Total:''), Obj (VStr total)]] [450, 150] TotalTableStyle,
              Spacer 1 30,
              Paragraph (Obj (VStr ''<b>Remittance Instructions</b>'')) CustomHeading,
              Paragraph
                (FString
                  ([Lit (newline # ''        <b>Dolarapp Account Information:</b><br/>'' @
                         newline # ''        Account Holder: ''),
                    Str_of holder,
                    Lit (''<br/>'' @ newline # ''        Dolartag: ''),
                    Str_of tag,
                    Lit (newline # ''        '')]
                   @ extra))
                Normal,
              Spacer 1 30,
              Paragraph
                (Obj (VStr
                  ''<b>Note:</b> Services performed outside the U.S.; no U.S. withholding applies.''))
                Note]))))))))))))))))))))"

text \<open>
  \<^verbatim>\<open>generate_pdf\<close> (lines 74-270). The output files are a map from file names to the
  documents built. Creating the \<^verbatim>\<open>SimpleDocTemplate\<close> does not touch the file system;
  the file is written by \<^verbatim>\<open>doc.build\<close> at line 269, which an exception raised before
  never reaches. The typesetting library, which turns the document into bytes, is not
  part of the program.
\<close>

definition generate_pdf ::
  "pyval \<Rightarrow> string \<Rightarrow> (string \<rightharpoonup> pdf) \<Rightarrow> (error + string) \<times> (string \<rightharpoonup> pdf)" where
  "generate_pdf idata filename files =
     (case pdf_elements idata of
        Inl e \<Rightarrow> (Inl e, files)
      | Inr els \<Rightarrow>
          (Inr filename, files(filename \<mapsto> \<lparr>template = letter_template, elements = els\<rparr>)))"

section \<open>The command line program\<close>

text \<open>
  The namespace returned by \<^verbatim>\<open>parser.parse_args()\<close> (lines 358-384). A flag that is not
  given is \<^verbatim>\<open>None\<close>, except \<^verbatim>\<open>--service-description\<close>, which has a default, and
  \<^verbatim>\<open>--list-templates\<close>, which is a boolean. \<^verbatim>\<open>--amount\<close> has \<^verbatim>\<open>type=float\<close>.
\<close>

record args =
  arg_amount :: "pyfloat option"
  arg_account_holder :: "string option"
  arg_dolartag :: "string option"
  arg_client_name :: "string option"
  arg_client_address :: "string option"
  arg_client_ein :: "string option"
  arg_contractor_name :: "string option"
  arg_contractor_cuil :: "string option"
  arg_contractor_tax_status :: "string option"
  arg_service_description :: string
  arg_service_period :: "string option"
  arg_issue_date :: "string option"
  arg_additional_payment_info :: "string option"
  arg_output :: "string option"
  arg_save_template :: "string option"
  arg_use_template :: "string option"
  arg_list_templates :: bool

definition default_service_description :: string where
  "default_service_description = ''Contractor services - Software Engineer''"

text \<open>What \<^verbatim>\<open>argparse\<close> stores for \<^verbatim>\<open>--service-description\<close> (lines 367-369): the value
  given on the command line, or the default when the flag is not given.\<close>

definition parsed_service_description :: "string option \<Rightarrow> string" where
  "parsed_service_description flag =
     (case flag of None \<Rightarrow> default_service_description | Some s \<Rightarrow> s)"

text \<open>
  What the program reads from outside: the clock, as the two renderings of
  \<^verbatim>\<open>datetime.now()\<close> that it uses (\<^verbatim>\<open>%Y-%m-%d\<close> and \<^verbatim>\<open>%Y%m%d_%H%M%S\<close>), and the
  interpreter's \<^verbatim>\<open>float(str)\<close>, \<open>None\<close> standing for its \<^verbatim>\<open>ValueError\<close>.
\<close>

record env =
  today :: string
  timestamp :: string
  float_of_str :: "string \<Rightarrow> pyfloat option"

text \<open>
  What the program changes: the backing file of the store, the output files, the
  standard output (one entry for each call of \<^verbatim>\<open>print\<close>; the prompts of \<^verbatim>\<open>input\<close> are
  not recorded) and the lines still to be read from the standard input.
\<close>

datatype printed = Print string | PrintHelp

record world =
  store :: file_state
  files :: "string \<rightharpoonup> pdf"
  stdout :: "printed list"
  stdin :: "string list"

type_synonym 'a io = "world \<Rightarrow> (error + 'a) \<times> world"

definition io_bind :: "'a io \<Rightarrow> ('a \<Rightarrow> 'b io) \<Rightarrow> 'b io" where
  "io_bind m f w = (case m w of (Inl e, w') \<Rightarrow> (Inl e, w') | (Inr x, w') \<Rightarrow> f x w')"

definition io_return :: "'a \<Rightarrow> 'a io" where
  "io_return x w = (Inr x, w)"

text \<open>A computation that may raise and does not touch the world.\<close>

definition io_lift :: "error + 'a \<Rightarrow> 'a io" where
  "io_lift r w = (r, w)"

definition py_print :: "string \<Rightarrow> unit io" where
  "py_print s w = (Inr (), w\<lparr>stdout := stdout w @ [Print s]\<rparr>)"

text \<open>\<^verbatim>\<open>str.strip()\<close>, on the white space of ASCII.\<close>

definition is_space :: "char \<Rightarrow> bool" where
  "is_space c = (c \<in> set [CHR 0x09, CHR 0x0A, CHR 0x0B, CHR 0x0C, CHR 0x0D,
                           CHR 0x1C, CHR 0x1D, CHR 0x1E, CHR 0x1F, CHR 0x20])"

definition strip :: "string \<Rightarrow> string" where
  "strip s = rev (dropWhile is_space (rev (dropWhile is_space s)))"

text \<open>\<^verbatim>\<open>input(...).strip()\<close>: \<^verbatim>\<open>EOFError\<close> when the input is exhausted.\<close>

definition input_stripped :: "string io" where
  "input_stripped w =
     (case stdin w of
        [] \<Rightarrow> (Inl EOFError, w)
      | l # ls \<Rightarrow> (Inr (strip l), w\<lparr>stdin := ls\<rparr>))"

text \<open>\<^verbatim>\<open>s.endswith(suffix)\<close> and lines 313-314 and 421-422.\<close>

definition ends_with :: "string \<Rightarrow> string \<Rightarrow> bool" where
  "ends_with suf s = (drop (length s - length suf) s = suf)"

definition ensure_pdf :: "string \<Rightarrow> string" where
  "ensure_pdf name = (if ends_with ''.pdf'' name then name else name @ ''.pdf'')"

text \<open>\<^verbatim>\<open>x if x else d\<close> for an optional string \<open>x\<close>.\<close>

fun str_or :: "string option \<Rightarrow> string \<Rightarrow> string" where
  "str_or None d = d"
| "str_or (Some s) d = (if s \<noteq> [] then s else d)"

definition check_mark :: string where
  "check_mark = [CHR 0xE2, CHR 0x9C, CHR 0x93]"

subsection \<open>Merging the command line with a template\<close>

text \<open>\<^verbatim>\<open>args.x or template_data.get(key, '')\<close>.\<close>

fun cli_or_template :: "string option \<Rightarrow> pyval \<Rightarrow> string \<Rightarrow> error + pyval" where
  "cli_or_template None template_data key = py_get template_data key (VStr '''')"
| "cli_or_template (Some s) template_data key =
     (if s \<noteq> [] then Inr (VStr s) else py_get template_data key (VStr ''''))"

text \<open>The value of \<^verbatim>\<open>args.amount\<close> as a Python object.\<close>

fun amount_val :: "pyfloat option \<Rightarrow> pyval" where
  "amount_val None = VNone"
| "amount_val (Some f) = VFloat f"

text \<open>The dictionary \<^verbatim>\<open>invoice_data\<close> of lines 425-440.\<close>

definition merge_invoice_data :: "args \<Rightarrow> pyval \<Rightarrow> string \<Rightarrow> string \<Rightarrow> error + pyval" where
  "merge_invoice_data a template_data invoice_number issue_date =
     and_then (cli_or_template (arg_client_name a) template_data ''client_name'')
       (\<lambda>client_name.
     and_then (cli_or_template (arg_client_address a) template_data ''client_address'')
       (\<lambda>client_address.
     and_then (cli_or_template (arg_client_ein a) template_data ''client_ein'')
       (\<lambda>client_ein.
     and_then (cli_or_template (arg_contractor_name a) template_data ''contractor_name'')
       (\<lambda>contractor_name.
     and_then (cli_or_template (arg_contractor_cuil a) template_data ''contractor_cuil'')
       (\<lambda>contractor_cuil.
     and_then (cli_or_template (arg_contractor_tax_status a) template_data
                ''contractor_tax_status'')
       (\<lambda>contractor_tax_status.
     and_then (if arg_service_description a \<noteq> ''Contractor services - Software Engineer''
               then Inr (VStr (arg_service_description a))
               else py_get template_data ''service_description''
                      (VStr (arg_service_description a)))
       (\<lambda>service_description.
     and_then (cli_or_template (arg_account_holder a) template_data ''account_holder'')
       (\<lambda>account_holder.
     and_then (cli_or_template (arg_dolartag a) template_data ''dolartag'')
       (\<lambda>dolartag.
     and_then (cli_or_template (arg_additional_payment_info a) template_data
                ''additional_payment_info'')
       (\<lambda>additional_payment_info.
       Inr (VDict
         [(''invoice_number'', VStr invoice_number),
          (''issue_date'', VStr issue_date),
          (''client_name'', client_name),
          (''client_address'', client_address),
          (''client_ein'', client_ein),
          (''contractor_name'', contractor_name),
          (''contractor_cuil'', contractor_cuil),
          (''contractor_tax_status'', contractor_tax_status),
          (''service_description'', service_description),
          (''service_period'', VStr (str_or (arg_service_period a) '''')),
          (''amount'', amount_val (arg_amount a)),
          (''account_holder'', account_holder),
          (''dolartag'', dolartag),
          (''additional_payment_info'', additional_payment_info)])))))))))))"

text \<open>The dictionary \<^verbatim>\<open>template_to_save\<close> of lines 449-460.\<close>

definition template_to_save :: "pyval \<Rightarrow> error + pyval" where
  "template_to_save invoice_data =
     and_then (getitem invoice_data ''client_name'') (\<lambda>client_name.
     and_then (getitem invoice_data ''client_address'') (\<lambda>client_address.
     and_then (getitem invoice_data ''client_ein'') (\<lambda>client_ein.
     and_then (getitem invoice_data ''contractor_name'') (\<lambda>contractor_name.
     and_then (getitem invoice_data ''contractor_cuil'') (\<lambda>contractor_cuil.
     and_then (getitem invoice_data ''contractor_tax_status'') (\<lambda>contractor_tax_status.
     and_then (getitem invoice_data ''service_description'') (\<lambda>service_description.
     and_then (getitem invoice_data ''account_holder'') (\<lambda>account_holder.
     and_then (getitem invoice_data ''dolartag'') (\<lambda>dolartag.
     and_then (getitem invoice_data ''additional_payment_info'') (\<lambda>additional_payment_info.
       Inr (VDict
         [(''client_name'', client_name),
          (''client_address'', client_address),
          (''client_ein'', client_ein),
          (''contractor_name'', contractor_name),
          (''contractor_cuil'', contractor_cuil),
          (''contractor_tax_status'', contractor_tax_status),
          (''service_description'', service_description),
          (''account_holder'', account_holder),
          (''dolartag'', dolartag),
          (''additional_payment_info'', additional_payment_info)])))))))))))"

subsection \<open>Argument mode\<close>

text \<open>The manager's methods and \<^verbatim>\<open>generate_pdf\<close>, acting on the world.\<close>

definition next_number_io :: "pyval \<Rightarrow> (string \<times> pyval) io" where
  "next_number_io data w =
     (case get_next_invoice_number data (store w) of
        (Inl e, data', file') \<Rightarrow> (Inl e, w\<lparr>store := file'\<rparr>)
      | (Inr n, data', file') \<Rightarrow> (Inr (n, data'), w\<lparr>store := file'\<rparr>))"

definition save_template_io :: "string \<Rightarrow> pyval \<Rightarrow> pyval \<Rightarrow> unit io" where
  "save_template_io name t data w =
     (case save_template name t data (store w) of
        (r, data', file') \<Rightarrow> (r, w\<lparr>store := file'\<rparr>))"

definition generate_pdf_io :: "pyval \<Rightarrow> string \<Rightarrow> string io" where
  "generate_pdf_io invoice_data filename w =
     (case generate_pdf invoice_data filename (files w) of
        (r, files') \<Rightarrow> (r, w\<lparr>files := files'\<rparr>))"

text \<open>
  Lines 415-462: the branch taken when the gate of line 413 holds. \<open>data\<close> is the
  document that the manager of line 387 has loaded.
\<close>

definition argument_mode :: "env \<Rightarrow> args \<Rightarrow> pyval \<Rightarrow> pyval \<Rightarrow> (int option) io" where
  "argument_mode e a template_data data =
     io_bind (next_number_io data) (\<lambda>(invoice_number, data').
       let issue_date = str_or (arg_issue_date a) (today e);
           output_filename =
             ensure_pdf (str_or (arg_output a) (''invoice_'' @ timestamp e @ ''.pdf''))
       in
     io_bind (io_lift (merge_invoice_data a template_data invoice_number issue_date))
       (\<lambda>invoice_data.
     io_bind (generate_pdf_io invoice_data output_filename) (\<lambda>_.
     io_bind (py_print (check_mark @ '' Invoice #'' @ invoice_number @
                        '' generated successfully: '' @ output_filename)) (\<lambda>_.
       case arg_save_template a of
         None \<Rightarrow> io_return None
       | Some name \<Rightarrow>
           if name = [] then io_return None
           else
             io_bind (io_lift (template_to_save invoice_data)) (\<lambda>t.
             io_bind (save_template_io name t data') (\<lambda>_.
             io_bind (py_print (check_mark @ '' Template saved as '' @ [CHR 0x27] @ name @
                                [CHR 0x27])) (\<lambda>_.
               io_return None)))))))"

subsection \<open>Interactive mode\<close>

text \<open>
  The loop of lines 287-293, by recursion on the lines still to be read: the commas and
  dollar signs are removed from the stripped line, and a line that \<^verbatim>\<open>float\<close> rejects
  prints the complaint and asks again.
\<close>

fun read_amount ::
  "(string \<Rightarrow> pyfloat option) \<Rightarrow> string list \<Rightarrow> printed list \<Rightarrow>
   (error + pyfloat) \<times> string list \<times> printed list" where
  "read_amount parse [] out = (Inl EOFError, [], out)"
| "read_amount parse (l # ls) out =
     (case parse (filter (\<lambda>c. c \<noteq> CHR ''$'') (filter (\<lambda>c. c \<noteq> CHR '','') (strip l))) of
        Some amount \<Rightarrow> (Inr amount, ls, out)
      | None \<Rightarrow>
          read_amount parse ls (out @ [Print ''Invalid amount. Please enter a numeric value.'']))"

definition amount_prompt :: "env \<Rightarrow> pyfloat io" where
  "amount_prompt e w =
     (case read_amount (float_of_str e) (stdin w) (stdout w) of
        (r, ins, outs) \<Rightarrow> (r, w\<lparr>stdout := outs, stdin := ins\<rparr>))"

text \<open>\<^verbatim>\<open>interactive_mode\<close> (lines 273-337); the manager of line 317 loads the file anew.\<close>

definition interactive_mode :: "env \<Rightarrow> unit io" where
  "interactive_mode e =
     io_bind (py_print (newline # ''=== Invoice Generator - Interactive Mode ==='' @ [newline]))
       (\<lambda>_.
     io_bind input_stripped (\<lambda>client_name.
     io_bind input_stripped (\<lambda>client_address.
     io_bind input_stripped (\<lambda>description_line.
       let service_description =
             (if description_line = [] then ''Software engineering services''
              else description_line)
       in
     io_bind (amount_prompt e) (\<lambda>amount.
     io_bind input_stripped (\<lambda>issue_date_str.
       let issue_date = (if issue_date_str = [] then today e else issue_date_str) in
     io_bind input_stripped (\<lambda>account_holder.
     io_bind input_stripped (\<lambda>dolartag.
     io_bind input_stripped (\<lambda>additional_payment_info.
     io_bind input_stripped (\<lambda>output_line.
       let output_filename =
             ensure_pdf (if output_line = [] then ''invoice_'' @ timestamp e @ ''.pdf''
                         else output_line)
       in
     io_bind (\<lambda>w. io_lift (load_data (store w)) w) (\<lambda>data.
     io_bind (next_number_io data) (\<lambda>(invoice_number, data').
     io_bind (generate_pdf_io
                (VDict
                  [(''invoice_number'', VStr invoice_number),
                   (''issue_date'', VStr issue_date),
                   (''client_name'', VStr client_name),
                   (''client_address'', VStr client_address),
                   (''service_description'', VStr service_description),
                   (''amount'', VFloat amount),
                   (''account_holder'', VStr account_holder),
                   (''dolartag'', VStr dolartag),
                   (''additional_payment_info'', VStr additional_payment_info)])
                output_filename) (\<lambda>_.
       py_print (newline # check_mark @ '' Invoice #'' @ invoice_number @
                 '' generated successfully: '' @ output_filename))))))))))))))"

subsection \<open>The entry point\<close>

text \<open>Lines 412-413: \<^verbatim>\<open>required_from_template\<close> and the gate of argument mode.\<close>

definition required_from_template :: "pyval \<Rightarrow> error + pyval" where
  "required_from_template template_data =
     and_then (py_get template_data ''account_holder'' VNone) (\<lambda>holder.
       if truthy holder then py_get template_data ''dolartag'' VNone else Inr holder)"

definition argument_gate :: "args \<Rightarrow> pyval \<Rightarrow> bool" where
  "argument_gate a from_template =
     ((amount_truthy (arg_amount a) \<and> str_truthy (arg_account_holder a)
         \<and> str_truthy (arg_dolartag a))
      \<or> (amount_truthy (arg_amount a) \<and> truthy from_template))"

text \<open>The two messages of lines 466-467.\<close>

definition required_arguments_error :: "printed list" where
  "required_arguments_error =
     [Print ''Error: When using argument mode, --amount, --account-holder, and --dolartag are all required.'',
      Print (''Use --help for more information, or run without arguments for interactive mode.'' @
             [newline]),
      PrintHelp]"

definition print_all :: "printed list \<Rightarrow> unit io" where
  "print_all outs w = (Inr (), w\<lparr>stdout := stdout w @ outs\<rparr>)"

text \<open>
  Lines 400-408: \<open>Some\<close> of the template data to merge (\<^verbatim>\<open>{}\<close> when no template is
  asked for), or \<open>None\<close> when the template asked for is not found and the two messages
  have been printed.
\<close>

definition use_template_step :: "args \<Rightarrow> pyval \<Rightarrow> (pyval option) io" where
  "use_template_step a data =
     (case arg_use_template a of
        None \<Rightarrow> io_return (Some (VDict []))
      | Some name \<Rightarrow>
          if name = [] then io_return (Some (VDict []))
          else
            io_bind (io_lift (load_template name data)) (\<lambda>template_data.
              if template_data = VNone then
                io_bind (py_print (''Error: Template '' @ [CHR 0x27] @ name @ [CHR 0x27] @
                                   '' not found.'')) (\<lambda>_.
                io_bind (py_print ''Use --list-templates to see available templates.'') (\<lambda>_.
                  io_return None))
              else
                io_bind (py_print (''Loaded template: '' @ name)) (\<lambda>_.
                  io_return (Some template_data))))"

text \<open>
  \<^verbatim>\<open>main\<close> (lines 340-471), from the parsed arguments on. The result is the value that
  \<^verbatim>\<open>main\<close> returns (\<open>None\<close> when it falls off its end) or the exception that leaves it.
\<close>

definition main :: "env \<Rightarrow> args \<Rightarrow> (int option) io" where
  "main e a =
     io_bind (\<lambda>w. io_lift (load_data (store w)) w) (\<lambda>data.
       if arg_list_templates a then
         io_bind (io_lift (list_templates data)) (\<lambda>templates.
         io_bind (if templates \<noteq> []
                  then print_all (Print (newline # ''Available templates:'') #
                                  map (\<lambda>name. Print (''  - '' @ name)) templates)
                  else py_print (newline # ''No templates saved yet.'')) (\<lambda>_.
           io_return (Some 0)))
       else
         io_bind (use_template_step a data) (\<lambda>loaded.
           case loaded of
             None \<Rightarrow> io_return (Some 1)
           | Some template_data \<Rightarrow>
               io_bind (io_lift (required_from_template template_data)) (\<lambda>from_template.
                 if argument_gate a from_template then
                   argument_mode e a template_data data
                 else if amount_truthy (arg_amount a) \<or> str_truthy (arg_account_holder a)
                         \<or> str_truthy (arg_dolartag a) then
                   io_bind (print_all required_arguments_error) (\<lambda>_. io_return (Some 1))
                 else
                   io_bind (interactive_mode e) (\<lambda>_. io_return None))))"

text \<open>
  Lines 474-475: the script calls \<^verbatim>\<open>main()\<close> and drops its value, so the exit status of
  the process is 0 whenever \<^verbatim>\<open>main\<close> returns and 1 when an exception leaves it.
\<close>

definition script_exit_status :: "env \<Rightarrow> args \<Rightarrow> world \<Rightarrow> nat" where
  "script_exit_status e a w = (case fst (main e a w) of Inl err \<Rightarrow> 1 | Inr r \<Rightarrow> 0)"

section \<open>Observations on runs and strings\<close>

text \<open>
  A sequence of \<open>n\<close> allocations with nothing else touching the file: every call with
  what it returns and the file as it leaves it.
\<close>

fun allocate_seq :: "nat \<Rightarrow> file_state \<Rightarrow> ((error + string) \<times> file_state) list" where
  "allocate_seq 0 file = []"
| "allocate_seq (Suc n) file =
     (case allocate_next file of (r, file') \<Rightarrow> (r, file') # allocate_seq n file')"

text \<open>Reading a string of decimal digits back as a number.\<close>

definition is_digit :: "char \<Rightarrow> bool" where
  "is_digit c = (c \<in> set ''0123456789'')"

definition digit_value :: "char \<Rightarrow> nat" where
  "digit_value c = of_char c - 48"

definition decimal_value :: "string \<Rightarrow> nat" where
  "decimal_value s = foldl (\<lambda>a c. 10 * a + digit_value c) 0 s"

text \<open>
  The merge rule in the words of the specification: the explicit value when it is not
  empty, otherwise the value of the template when it has one, otherwise the default.
\<close>

definition spec_merge :: "string option \<Rightarrow> pyval option \<Rightarrow> pyval \<Rightarrow> pyval" where
  "spec_merge explicit from_template dflt =
     (if str_truthy explicit then VStr (str_or explicit [])
      else case from_template of Some v \<Rightarrow> v | None \<Rightarrow> dflt)"

text \<open>The fields of a template, in the order of lines 450-459.\<close>

definition template_keys :: "string list" where
  "template_keys =
     [''client_name'', ''client_address'', ''client_ein'', ''contractor_name'',
      ''contractor_cuil'', ''contractor_tax_status'', ''service_description'',
      ''account_holder'', ''dolartag'', ''additional_payment_info'']"



text \<open>The lines that \<open>optional_line\<close> appends for a dictionary, and the description
  cell of lines 188-192.\<close>

definition opt_lines :: "(string \<times> pyval) list \<Rightarrow> string \<Rightarrow> (pyval \<Rightarrow> content) \<Rightarrow> flowable list" where
  "opt_lines kvs key mk =
     (case map_of kvs key of
        None \<Rightarrow> []
      | Some v \<Rightarrow> if truthy v then [Paragraph (mk v) Normal] else [])"

definition description_cell :: "(string \<times> pyval) list \<Rightarrow> content" where
  "description_cell kvs =
     (let d0 = (case map_of kvs ''service_description'' of
                  None \<Rightarrow> VStr ''Software engineering services''
                | Some v \<Rightarrow> v)
      in case map_of kvs ''service_period'' of
           None \<Rightarrow> Obj d0
         | Some p \<Rightarrow>
             if truthy p then FString [Str_of d0, Lit [newline], Str_of p] else Obj d0)"


text \<open>The namespace of an empty command line, to build concrete invocations from.\<close>

definition no_flags :: args where
  "no_flags =
     \<lparr>arg_amount = None, arg_account_holder = None, arg_dolartag = None,
      arg_client_name = None, arg_client_address = None, arg_client_ein = None,
      arg_contractor_name = None, arg_contractor_cuil = None,
      arg_contractor_tax_status = None,
      arg_service_description = parsed_service_description None,
      arg_service_period = None, arg_issue_date = None,
      arg_additional_payment_info = None, arg_output = None, arg_save_template = None,
      arg_use_template = None, arg_list_templates = False\<rparr>"

text \<open>A store as the onboarding script leaves it (one template, named rexo), a world
  around it and an environment, for the concrete runs below.\<close>

definition rexo_template :: pyval where
  "rexo_template =
     VDict [(''client_name'', VStr ''Rexo, Inc.''),
            (''client_address'', VStr ''251 Little Falls Drive, Wilmington''),
            (''client_ein'', VStr ''33-2631448''),
            (''contractor_name'', VStr ''Jane Doe''),
            (''contractor_cuil'', VStr ''27-12345678-9''),
            (''contractor_tax_status'', VStr ''monotributista''),
            (''service_description'', VStr ''Contractor services - Software Engineer''),
            (''account_holder'', VStr ''Jane Doe''),
            (''dolartag'', VStr ''$jane''),
            (''additional_payment_info'', VStr '''')]"

definition example_store :: file_state where
  "example_store =
     Parsed (VDict [(''last_invoice_number'', VInt 7),
                    (''templates'', VDict [(''rexo'', rexo_template)])])"

definition example_world :: world where
  "example_world = \<lparr>store = example_store, files = Map.empty, stdout = [], stdin = []\<rparr>"

definition example_env :: env where
  "example_env =
     \<lparr>today = ''2025-01-31'', timestamp = ''20250131_120000'',
      float_of_str = (\<lambda>s. if s = ''100'' then Some (Finite False 100 0) else None)\<rparr>"

text \<open>
  The blocks that \<^verbatim>\<open>generate_pdf\<close> builds from a dictionary in which the five
  subscripted fields are found and the amount is formatted: the list \<^verbatim>\<open>elements\<close> in
  terms of the values found.
\<close>

definition remittance_extra :: "(string \<times> pyval) list \<Rightarrow> piece list" where
  "remittance_extra kvs =
     (case map_of kvs ''additional_payment_info'' of
        None \<Rightarrow> []
      | Some i \<Rightarrow> if truthy i then [Lit ''<br/>'', Str_of i] else [])"

definition invoice_layout ::
  "(string \<times> pyval) list \<Rightarrow> pyval \<Rightarrow> pyval \<Rightarrow> string \<Rightarrow> pyval \<Rightarrow> pyval \<Rightarrow> flowable list" where
  "invoice_layout kvs invoice_number issue_date amount holder tag =
     [Paragraph (Obj (VStr ''INVOICE'')) CustomTitle,
      Spacer 1 20,
      Table [[Obj (VStr ''Invoice Number:''), Obj invoice_number],
             [Obj (VStr ''Issue Date:''), Obj issue_date],
             [Obj (VStr ''Currency:''), Obj (VStr ''USD'')]]
            [200, 400] HeaderTableStyle,
      Spacer 1 30,
      Paragraph (Obj (VStr ''<b>From:</b>'')) CustomHeading]
     @ opt_lines kvs ''contractor_name'' (\<lambda>v. Obj v)
     @ opt_lines kvs ''contractor_cuil'' (\<lambda>v. FString [Lit ''CUIL: '', Str_of v])
     @ opt_lines kvs ''contractor_tax_status'' (\<lambda>v. FString [Lit ''Tax Status: '', Str_of v])
     @ [Spacer 1 15,
        Paragraph (Obj (VStr ''<b>Bill To:</b>'')) CustomHeading]
     @ opt_lines kvs ''client_name'' (\<lambda>v. Obj v)
     @ opt_lines kvs ''client_address'' (\<lambda>v. Obj v)
     @ opt_lines kvs ''client_ein'' (\<lambda>v. FString [Lit ''EIN: '', Str_of v])
     @ [Spacer 1 20,
        Paragraph (Obj (VStr ''<b>Services</b>'')) CustomHeading,
        Spacer 1 10,
        Table [[Obj (VStr ''Description''), Obj (VStr ''Amount (USD)'')],
               [description_cell kvs, Obj (VStr amount)]]
              [450, 150] LineItemsTableStyle,
        Spacer 1 15,
        Table [[Obj (VStr ''Total:''), Obj (VStr amount)]] [450, 150] TotalTableStyle,
        Spacer 1 30,
        Paragraph (Obj (VStr ''<b>Remittance Instructions</b>'')) CustomHeading,
        Paragraph
          (FString
            ([Lit (newline # ''        <b>Dolarapp Account Information:</b><br/>'' @
                   newline # ''        Account Holder: ''),
              Str_of holder,
              Lit (''<br/>'' @ newline # ''        Dolartag: ''),
              Str_of tag,
              Lit (newline # ''        '')]
             @ remittance_extra kvs))
          Normal,
        Spacer 1 30,
        Paragraph
          (Obj (VStr
            ''<b>Note:</b> Services performed outside the U.S.; no U.S. withholding applies.''))
          Note]"

section \<open>Absent store\<close>

text \<open>
  C4: when the backing file is absent, loading gives the zero-value document (counter 0,
  no templates); the first allocation on an absent store returns "0001" and leaves a
  saved document whose counter is 1 (and whose template map is still empty).
\<close>

theorem absent_store_first_allocation:
  "load_data NoFile = Inr (VDict [(''last_invoice_number'', VInt 0), (''templates'', VDict [])])
   \<and> allocate_next NoFile =
       (Inr ''0001'', Parsed (VDict [(''last_invoice_number'', VInt 1), (''templates'', VDict [])]))
   \<and> stored_counter (snd (allocate_next NoFile)) = Some 1"
  by (simp add: load_data_def allocate_next_def get_next_invoice_number_def save_data_def
      stored_counter_def format_04d_int_def zfill_def str_nat.simps digit_char_def
      eval_nat_numeral)

section \<open>Decimal digits\<close>

lemma digit_value_digit_char: "d < 10 \<Longrightarrow> digit_value (digit_char d) = d"
proof -
  assume "d < 10"
  then have "d \<in> {0,1,2,3,4,5,6,7,8,9}" by auto
  then show ?thesis by (auto simp: digit_value_def digit_char_def)
qed

lemma is_digit_digit_char: "d < 10 \<Longrightarrow> is_digit (digit_char d)"
proof -
  assume "d < 10"
  then have "d \<in> {0,1,2,3,4,5,6,7,8,9}" by auto
  then show ?thesis by (auto simp: is_digit_def digit_char_def)
qed

lemma decimal_value_snoc:
  "decimal_value (s @ [c]) = 10 * decimal_value s + digit_value c"
  by (simp add: decimal_value_def)

lemma decimal_value_str_nat: "decimal_value (str_nat n) = n"
proof (induction n rule: str_nat.induct)
  case (1 n)
  show ?case
  proof (cases "n < 10")
    case True
    then show ?thesis
      by (simp add: str_nat.simps [of n] decimal_value_def digit_value_digit_char)
  next
    case False
    with 1 show ?thesis
      by (simp add: str_nat.simps [of n] decimal_value_snoc digit_value_digit_char)
  qed
qed

lemma digits_str_nat: "c \<in> set (str_nat n) \<Longrightarrow> is_digit c"
proof (induction n rule: str_nat.induct)
  case (1 n)
  show ?case
  proof (cases "n < 10")
    case True
    with 1(2) show ?thesis
      by (simp add: str_nat.simps [of n] is_digit_digit_char)
  next
    case False
    with 1 show ?thesis
      by (auto simp: str_nat.simps [of n] is_digit_digit_char)
  qed
qed

lemma str_nat_nonempty: "str_nat n \<noteq> []"
  by (subst str_nat.simps) simp

lemma hd_str_nat: "0 < n \<Longrightarrow> hd (str_nat n) \<noteq> CHR ''0''"
proof (induction n rule: str_nat.induct)
  case (1 n)
  show ?case
  proof (cases "n < 10")
    case True
    with 1(2) have "n \<in> {1,2,3,4,5,6,7,8,9}" by auto
    then show ?thesis
      by (auto simp: str_nat.simps [of n] digit_char_def)
  next
    case False
    with 1 show ?thesis
      by (simp add: str_nat.simps [of n] str_nat_nonempty)
  qed
qed

lemma decimal_value_zeros: "decimal_value (replicate k (CHR ''0'') @ s) = decimal_value s"
proof (induction k)
  case 0
  then show ?case by simp
next
  case (Suc k)
  have "foldl (\<lambda>a c. 10 * a + digit_value c) 0 (CHR ''0'' # replicate k CHR ''0'' @ s) =
        foldl (\<lambda>a c. 10 * a + digit_value c) 0 (replicate k CHR ''0'' @ s)"
    by (simp add: digit_value_def)
  with Suc show ?case by (simp add: decimal_value_def)
qed

lemma is_digit_zero: "is_digit (CHR ''0'')"
  by (simp add: is_digit_def)

section \<open>Sequential numbering\<close>

lemma map_of_dict_set: "map_of (dict_set k v kvs) = (map_of kvs)(k \<mapsto> v)"
  by (induction kvs) (auto simp: fun_eq_iff)

lemma load_data_Parsed: "load_data (Parsed d) = Inr d"
  by (simp add: load_data_def)

lemma stored_counter_load:
  assumes "stored_counter st = Some start"
  shows "\<exists>kvs. load_data st = Inr (VDict kvs) \<and>
           map_of kvs ''last_invoice_number'' = Some (VInt start)"
  using assms
  by (auto simp: stored_counter_def split: sum.splits pyval.splits option.splits)

lemma allocate_next_counter:
  assumes "stored_counter st = Some start"
  shows "fst (allocate_next st) = Inr (format_04d_int (start + 1)) \<and>
         stored_counter (snd (allocate_next st)) = Some (start + 1)"
proof -
  from stored_counter_load [OF assms] obtain kvs where
    l: "load_data st = Inr (VDict kvs)" and
    c: "map_of kvs ''last_invoice_number'' = Some (VInt start)" by blast
  show ?thesis
    by (simp add: allocate_next_def l get_next_invoice_number_def c map_of_dict_set
        save_data_def stored_counter_def load_data_Parsed)
qed

lemma allocate_seq_results:
  "stored_counter st = Some start \<Longrightarrow>
   map fst (allocate_seq n st) = map (\<lambda>i. Inr (format_04d_int (start + 1 + int i))) [0..<n]
   \<and> map (\<lambda>p. stored_counter (snd p)) (allocate_seq n st) =
       map (\<lambda>i. Some (start + 1 + int i)) [0..<n]"
proof (induction n arbitrary: st start)
  case 0
  then show ?case by simp
next
  case (Suc n)
  obtain r st' where a: "allocate_next st = (r, st')" by (cases "allocate_next st")
  with allocate_next_counter [OF Suc.prems] have
    r: "r = Inr (format_04d_int (start + 1))" and f: "stored_counter st' = Some (start + 1)"
    by simp_all
  have shift: "[0..<Suc n] = 0 # map Suc [0..<n]"
    by (simp add: upt_conv_Cons map_Suc_upt del: upt_Suc)
  from Suc.IH [OF f] show ?case
    by (simp add: a r f shift comp_def add.assoc del: upt_Suc)
qed

lemma format_04d_int_reads:
  assumes "0 \<le> n"
  shows "(\<forall>c \<in> set (format_04d_int n). is_digit c) \<and>
         decimal_value (format_04d_int n) = nat n \<and>
         4 \<le> length (format_04d_int n) \<and>
         (4 < length (format_04d_int n) \<longrightarrow> hd (format_04d_int n) \<noteq> CHR ''0'')"
proof -
  let ?s = "str_nat (nat n)"
  have f: "format_04d_int n = replicate (4 - length ?s) (CHR ''0'') @ ?s"
    using assms by (simp add: format_04d_int_def zfill_def)
  have d: "\<forall>c \<in> set (format_04d_int n). is_digit c"
    using digits_str_nat is_digit_zero by (auto simp: f)
  have v: "decimal_value (format_04d_int n) = nat n"
    by (simp add: f decimal_value_zeros decimal_value_str_nat)
  have l: "4 \<le> length (format_04d_int n)"
    by (simp add: f)
  have h: "4 < length (format_04d_int n) \<longrightarrow> hd (format_04d_int n) \<noteq> CHR ''0''"
  proof
    assume "4 < length (format_04d_int n)"
    then have long: "4 < length ?s" by (simp add: f split: if_splits)
    then have same: "format_04d_int n = ?s" by (simp add: f)
    have "nat n \<noteq> 0"
    proof
      assume "nat n = 0"
      then have "length ?s = 1" by (simp add: str_nat.simps [of 0])
      with long show False by simp
    qed
    then show "hd (format_04d_int n) \<noteq> CHR ''0''" by (simp add: same hd_str_nat)
  qed
  from d v l h show ?thesis by blast
qed

text \<open>
  C1: from a store whose counter is the integer \<open>start\<close> (at least -1, the least value
  that the onboarding script writes), \<open>n\<close> allocations in a row with nothing else touching
  the file return the numbers \<open>start + 1\<close>, ..., \<open>start + n\<close> in this order, each formatted
  by \<^verbatim>\<open>04d\<close>; when each call returns, the file already holds the number that it returns;
  and each returned string consists of decimal digits only, reads back as its number, has
  at least four characters, and starts with a zero only when it has exactly four (the
  width pads and never truncates).
\<close>

theorem sequential_allocation:
  assumes "stored_counter st = Some start" and "- 1 \<le> start"
  shows "map fst (allocate_seq n st) =
           map (\<lambda>i. Inr (format_04d_int (start + 1 + int i))) [0..<n]
         \<and> map (\<lambda>p. stored_counter (snd p)) (allocate_seq n st) =
             map (\<lambda>i. Some (start + 1 + int i)) [0..<n]
         \<and> (\<forall>i < n.
              (\<forall>c \<in> set (format_04d_int (start + 1 + int i)). is_digit c)
              \<and> decimal_value (format_04d_int (start + 1 + int i)) = nat (start + 1 + int i)
              \<and> 4 \<le> length (format_04d_int (start + 1 + int i))
              \<and> (4 < length (format_04d_int (start + 1 + int i)) \<longrightarrow>
                   hd (format_04d_int (start + 1 + int i)) \<noteq> CHR ''0''))"
proof -
  have "\<And>i. 0 \<le> start + 1 + int i" using assms(2) by simp
  then show ?thesis
    using allocate_seq_results [OF assms(1), of n] format_04d_int_reads by blast
qed

theorem sequential_allocation_witness:
  "map fst (allocate_seq 3 (Parsed (VDict [(''last_invoice_number'', VInt 9998),
                                            (''templates'', VDict [])]))) =
     [Inr ''9999'', Inr ''10000'', Inr ''10001'']
   \<and> map (\<lambda>p. stored_counter (snd p))
        (allocate_seq 3 (Parsed (VDict [(''last_invoice_number'', VInt 9998),
                                        (''templates'', VDict [])]))) =
     [Some 9999, Some 10000, Some 10001]
   \<and> map fst (allocate_seq 2 NoFile) = [Inr ''0001'', Inr ''0002'']"
proof -
  have c: "stored_counter (Parsed (VDict [(''last_invoice_number'', VInt 9998),
                                          (''templates'', VDict [])])) = Some 9998"
    by (simp add: stored_counter_def load_data_def)
  have z: "stored_counter NoFile = Some 0"
    by (simp add: stored_counter_def load_data_def)
  have u3: "[0..<3] = [0, 1, 2]" and u2: "[0..<2] = [0, 1]"
    by (simp_all add: upt_conv_Cons)
  have s: "str_nat 9999 = ''9999''" "str_nat 10000 = ''10000''" "str_nat 10001 = ''10001''"
    "str_nat (Suc 0) = ''1''" "str_nat 2 = ''2''"
    by (simp_all add: str_nat.simps digit_char_def)
  have f: "format_04d_int 9999 = ''9999''" "format_04d_int 10000 = ''10000''"
    "format_04d_int 10001 = ''10001''" "format_04d_int 1 = ''0001''"
    "format_04d_int 2 = ''0002''"
    by (simp_all add: format_04d_int_def zfill_def s numeral_3_eq_3)
  from sequential_allocation [OF c, of 3] sequential_allocation [OF z, of 2]
  show ?thesis by (simp add: u3 u2 f)
qed

section \<open>Documents with missing keys\<close>

text \<open>
  C5: a parseable document without the key \<^verbatim>\<open>last_invoice_number\<close> is not defaulted:
  the allocation and the peek raise \<^verbatim>\<open>KeyError\<close> and nothing is saved, whereas the three
  template operations do tolerate a document without the key \<^verbatim>\<open>templates\<close>.
\<close>

theorem missing_counter_key_raises:
  "allocate_next (Parsed (VDict [(''templates'', VDict [])])) =
     (Inl (KeyError ''last_invoice_number''), Parsed (VDict [(''templates'', VDict [])]))
   \<and> get_current_invoice_number (VDict [(''templates'', VDict [])]) =
       Inl (KeyError ''last_invoice_number'')
   \<and> list_templates (VDict [(''last_invoice_number'', VInt 3)]) = Inr []
   \<and> load_template ''rexo'' (VDict [(''last_invoice_number'', VInt 3)]) = Inr VNone
   \<and> save_template ''rexo'' (VDict []) (VDict [(''last_invoice_number'', VInt 3)])
         (Parsed (VDict [(''last_invoice_number'', VInt 3)])) =
       (Inr (),
        VDict [(''last_invoice_number'', VInt 3), (''templates'', VDict [(''rexo'', VDict [])])],
        Parsed (VDict [(''last_invoice_number'', VInt 3),
                       (''templates'', VDict [(''rexo'', VDict [])])]))"
  by (simp add: allocate_next_def load_data_def get_next_invoice_number_def
      get_current_invoice_number_def list_templates_def load_template_def
      save_template_def save_data_def)

section \<open>Merging and projecting\<close>

lemma and_then_Inr: "and_then (Inr x) f = f x"
  by (simp add: and_then_def)

lemma cli_or_template_dict:
  "cli_or_template x (VDict t) key = Inr (spec_merge x (map_of t key) (VStr ''''))"
  by (cases x) (auto simp: spec_merge_def split: option.splits)

lemma str_or_spec_merge: "VStr (str_or x d) = spec_merge x None (VStr d)"
  by (cases x) (auto simp: spec_merge_def)

text \<open>
  C2, as the code has it: with a template that is a dictionary (the empty one when no
  template is used), the record of lines 425-440 holds, for each of the nine fields client
  name, address and EIN, contractor name, CUIL and tax status, account holder, dolartag
  and additional payment information, the command line value when it is not empty,
  otherwise the value of the template when it has the key, otherwise the empty string.
  The service description is the value of \<^verbatim>\<open>args.service_description\<close> when that differs
  from the default text (an empty one included), otherwise the value of the template
  when it has the key, otherwise the default text. The issue date and the service period
  are the command line value when it is not empty and today's date, respectively the
  empty string, otherwise; no template is consulted for them.
\<close>

theorem merge_precedence:
  "\<exists>r. merge_invoice_data a (VDict t) number (str_or (arg_issue_date a) (today e)) =
         Inr (VDict r)
       \<and> map_of r ''client_name'' =
           Some (spec_merge (arg_client_name a) (map_of t ''client_name'') (VStr ''''))
       \<and> map_of r ''client_address'' =
           Some (spec_merge (arg_client_address a) (map_of t ''client_address'') (VStr ''''))
       \<and> map_of r ''client_ein'' =
           Some (spec_merge (arg_client_ein a) (map_of t ''client_ein'') (VStr ''''))
       \<and> map_of r ''contractor_name'' =
           Some (spec_merge (arg_contractor_name a) (map_of t ''contractor_name'') (VStr ''''))
       \<and> map_of r ''contractor_cuil'' =
           Some (spec_merge (arg_contractor_cuil a) (map_of t ''contractor_cuil'') (VStr ''''))
       \<and> map_of r ''contractor_tax_status'' =
           Some (spec_merge (arg_contractor_tax_status a) (map_of t ''contractor_tax_status'')
                  (VStr ''''))
       \<and> map_of r ''account_holder'' =
           Some (spec_merge (arg_account_holder a) (map_of t ''account_holder'') (VStr ''''))
       \<and> map_of r ''dolartag'' =
           Some (spec_merge (arg_dolartag a) (map_of t ''dolartag'') (VStr ''''))
       \<and> map_of r ''additional_payment_info'' =
           Some (spec_merge (arg_additional_payment_info a)
                  (map_of t ''additional_payment_info'') (VStr ''''))
       \<and> map_of r ''service_description'' =
           Some (if arg_service_description a \<noteq> default_service_description
                 then VStr (arg_service_description a)
                 else case map_of t ''service_description'' of
                        Some v \<Rightarrow> v
                      | None \<Rightarrow> VStr default_service_description)
       \<and> map_of r ''issue_date'' = Some (spec_merge (arg_issue_date a) None (VStr (today e)))
       \<and> map_of r ''service_period'' = Some (spec_merge (arg_service_period a) None (VStr ''''))"
proof -
  have sd: "(if arg_service_description a \<noteq> ''Contractor services - Software Engineer''
             then Inr (VStr (arg_service_description a))
             else py_get (VDict t) ''service_description'' (VStr (arg_service_description a))) =
            Inr (if arg_service_description a \<noteq> default_service_description
                 then VStr (arg_service_description a)
                 else case map_of t ''service_description'' of
                        Some v \<Rightarrow> v
                      | None \<Rightarrow> VStr default_service_description)"
    by (simp add: default_service_description_def split: option.splits)
  show ?thesis
    unfolding merge_invoice_data_def cli_or_template_dict and_then_Inr sd
    by (simp add: str_or_spec_merge)
qed

text \<open>
  The service description does not follow the rule of the other fields. Given on the
  command line with the default text, it loses against the template; given empty, it wins
  against the template.
\<close>

theorem service_description_precedence_counterexample:
  "and_then
     (merge_invoice_data
        (no_flags\<lparr>arg_service_description :=
            parsed_service_description (Some ''Contractor services - Software Engineer'')\<rparr>)
        (VDict [(''service_description'', VStr ''Consulting'')]) ''0001'' ''2025-01-31'')
     (\<lambda>d. getitem d ''service_description'') = Inr (VStr ''Consulting'')
   \<and> spec_merge (Some ''Contractor services - Software Engineer'')
        (Some (VStr ''Consulting'')) (VStr ''Contractor services - Software Engineer'') =
       VStr ''Contractor services - Software Engineer''
   \<and> VStr ''Consulting'' \<noteq> VStr ''Contractor services - Software Engineer''
   \<and> and_then
        (merge_invoice_data
           (no_flags\<lparr>arg_service_description := parsed_service_description (Some '''')\<rparr>)
           (VDict [(''service_description'', VStr ''Consulting'')]) ''0001'' ''2025-01-31'')
        (\<lambda>d. getitem d ''service_description'') = Inr (VStr '''')
   \<and> spec_merge (Some '''') (Some (VStr ''Consulting''))
        (VStr ''Contractor services - Software Engineer'') = VStr ''Consulting''
   \<and> VStr '''' \<noteq> VStr ''Consulting''"
  by (simp add: merge_invoice_data_def and_then_def no_flags_def parsed_service_description_def
      spec_merge_def)

theorem merge_precedence_witness:
  "\<exists>r. merge_invoice_data
          (no_flags\<lparr>arg_client_name := Some ''Acme Corp'', arg_dolartag := Some ''''\<rparr>)
          (VDict [(''client_name'', VStr ''Rexo, Inc.''), (''dolartag'', VStr ''$jane'')])
          ''0007'' ''2025-01-31'' = Inr (VDict r)
       \<and> map_of r ''client_name'' = Some (VStr ''Acme Corp'')
       \<and> map_of r ''dolartag'' = Some (VStr ''$jane'')
       \<and> map_of r ''client_ein'' = Some (VStr '''')
       \<and> map_of r ''service_description'' = Some (VStr ''Contractor services - Software Engineer'')
       \<and> map_of r ''issue_date'' = Some (VStr ''2025-01-31'')"
  using merge_precedence
    [of "no_flags\<lparr>arg_client_name := Some ''Acme Corp'', arg_dolartag := Some ''''\<rparr>"
        "[(''client_name'', VStr ''Rexo, Inc.''), (''dolartag'', VStr ''$jane'')]"
        "''0007''" "\<lparr>today = ''2025-01-31'', timestamp = ''20250131_120000'',
                     float_of_str = (\<lambda>s. None)\<rparr>"]
  by (simp add: no_flags_def spec_merge_def parsed_service_description_def
      default_service_description_def) blast

text \<open>
  C6: the dictionary saved as a template has exactly the ten keys of a template, in the
  order of the source, each with the value that the invoice record has for it; the
  invoice number, the issue date, the amount and the service period are not among its
  keys, whatever else the invoice record holds.
\<close>

theorem template_projection:
  assumes "\<forall>k \<in> set template_keys. map_of kvs k \<noteq> None"
  shows "\<exists>tk. template_to_save (VDict kvs) = Inr (VDict tk)
           \<and> map fst tk =
               [''client_name'', ''client_address'', ''client_ein'', ''contractor_name'',
                ''contractor_cuil'', ''contractor_tax_status'', ''service_description'',
                ''account_holder'', ''dolartag'', ''additional_payment_info'']
           \<and> (\<forall>k \<in> set (map fst tk). map_of tk k = map_of kvs k)
           \<and> ''invoice_number'' \<notin> set (map fst tk)
           \<and> ''issue_date'' \<notin> set (map fst tk)
           \<and> ''amount'' \<notin> set (map fst tk)
           \<and> ''service_period'' \<notin> set (map fst tk)"
proof -
  from assms obtain v1 v2 v3 v4 v5 v6 v7 v8 v9 v10 where
    "map_of kvs ''client_name'' = Some v1" "map_of kvs ''client_address'' = Some v2"
    "map_of kvs ''client_ein'' = Some v3" "map_of kvs ''contractor_name'' = Some v4"
    "map_of kvs ''contractor_cuil'' = Some v5" "map_of kvs ''contractor_tax_status'' = Some v6"
    "map_of kvs ''service_description'' = Some v7" "map_of kvs ''account_holder'' = Some v8"
    "map_of kvs ''dolartag'' = Some v9" "map_of kvs ''additional_payment_info'' = Some v10"
    by (auto simp: template_keys_def)
  then show ?thesis
    by (simp add: template_to_save_def and_then_def)
qed

theorem template_projection_witness:
  "\<exists>r tk.
     merge_invoice_data
       (no_flags\<lparr>arg_amount := Some (Finite False 5000 0), arg_account_holder := Some ''Jane Doe'',
                 arg_dolartag := Some ''$jane'', arg_issue_date := Some ''2025-01-31'',
                 arg_service_period := Some ''Services provided during January 2025''\<rparr>)
       (VDict []) ''0007'' ''2025-01-31'' = Inr (VDict r)
     \<and> map_of r ''invoice_number'' = Some (VStr ''0007'')
     \<and> map_of r ''issue_date'' = Some (VStr ''2025-01-31'')
     \<and> map_of r ''amount'' = Some (VFloat (Finite False 5000 0))
     \<and> map_of r ''service_period'' = Some (VStr ''Services provided during January 2025'')
     \<and> template_to_save (VDict r) = Inr (VDict tk)
     \<and> tk =
         [(''client_name'', VStr ''''), (''client_address'', VStr ''''), (''client_ein'', VStr ''''),
          (''contractor_name'', VStr ''''), (''contractor_cuil'', VStr ''''),
          (''contractor_tax_status'', VStr ''''),
          (''service_description'', VStr ''Contractor services - Software Engineer''),
          (''account_holder'', VStr ''Jane Doe''), (''dolartag'', VStr ''$jane''),
          (''additional_payment_info'', VStr '''')]"
proof -
  define a where "a = no_flags\<lparr>arg_amount := Some (Finite False 5000 0),
    arg_account_holder := Some ''Jane Doe'', arg_dolartag := Some ''$jane'',
    arg_issue_date := Some ''2025-01-31'',
    arg_service_period := Some ''Services provided during January 2025''\<rparr>"
  define r where "r =
    [(''invoice_number'', VStr ''0007''), (''issue_date'', VStr ''2025-01-31''),
     (''client_name'', VStr ''''), (''client_address'', VStr ''''), (''client_ein'', VStr ''''),
     (''contractor_name'', VStr ''''), (''contractor_cuil'', VStr ''''),
     (''contractor_tax_status'', VStr ''''),
     (''service_description'', VStr ''Contractor services - Software Engineer''),
     (''service_period'', VStr ''Services provided during January 2025''),
     (''amount'', VFloat (Finite False 5000 0)),
     (''account_holder'', VStr ''Jane Doe''), (''dolartag'', VStr ''$jane''),
     (''additional_payment_info'', VStr '''')]"
  have m: "merge_invoice_data a (VDict []) ''0007'' ''2025-01-31'' = Inr (VDict r)"
    by (simp add: merge_invoice_data_def and_then_def a_def r_def no_flags_def
        parsed_service_description_def default_service_description_def)
  have h: "\<forall>k \<in> set template_keys. map_of r k \<noteq> None"
    by (simp add: template_keys_def r_def)
  from template_projection [OF h] obtain tk where
    t: "template_to_save (VDict r) = Inr (VDict tk)" by blast
  have "template_to_save (VDict r) = Inr (VDict
         [(''client_name'', VStr ''''), (''client_address'', VStr ''''), (''client_ein'', VStr ''''),
          (''contractor_name'', VStr ''''), (''contractor_cuil'', VStr ''''),
          (''contractor_tax_status'', VStr ''''),
          (''service_description'', VStr ''Contractor services - Software Engineer''),
          (''account_holder'', VStr ''Jane Doe''), (''dolartag'', VStr ''$jane''),
          (''additional_payment_info'', VStr '''')])"
    by (simp add: template_to_save_def and_then_def r_def)
  with t m show ?thesis
    unfolding a_def by (intro exI [of _ r] exI [of _ tk]) (simp add: r_def)
qed

section \<open>The entry point\<close>

lemma io_bind_Inr:
  assumes "fst (io_bind m f w) = Inr r"
  obtains x w' where "m w = (Inr x, w')" and "fst (f x w') = Inr r"
  using assms by (auto simp: io_bind_def split: prod.splits sum.splits)

lemma argument_mode_returns_None:
  assumes "fst (argument_mode e a template_data data w) = Inr r"
  shows "r = None"
proof -
  from assms show ?thesis
    unfolding argument_mode_def
    apply (elim io_bind_Inr)
    apply (clarsimp simp: Let_def split: prod.splits)
    apply (elim io_bind_Inr)
    apply (auto simp: io_return_def split: option.splits if_splits elim!: io_bind_Inr)
    done
qed

lemma use_template_step_world:
  assumes "use_template_step a data w = (r, w')"
  shows "store w' = store w \<and> files w' = files w \<and> stdin w' = stdin w"
  using assms
  by (auto simp: use_template_step_def io_bind_def io_return_def io_lift_def py_print_def
      split: option.splits if_splits sum.splits)

lemma py_in_dict: "py_in key (VDict kvs) = Inr (map_of kvs key \<noteq> None)"
  by (simp add: map_of_eq_None_iff)

lemma load_template_absent:
  assumes "map_of kvs ''templates'' = None \<or>
           (\<exists>ts. map_of kvs ''templates'' = Some (VDict ts) \<and> map_of ts name = None)"
  shows "load_template name (VDict kvs) = Inr VNone"
  using assms
  unfolding load_template_def py_in_dict
  by auto

lemma main_return_one_world:
  assumes "fst (main e a w) = Inr (Some 1)"
  shows "store (snd (main e a w)) = store w \<and> files (snd (main e a w)) = files w"
proof (cases "load_data (store w)")
  case (Inl err)
  with assms show ?thesis by (simp add: main_def io_bind_def io_lift_def)
next
  case (Inr data)
  show ?thesis
  proof (cases "arg_list_templates a")
    case True
    with assms Inr show ?thesis
      by (auto simp: main_def io_bind_def io_lift_def io_return_def print_all_def py_print_def
          split: sum.splits if_splits)
  next
    case False
    obtain r1 w1 where u: "use_template_step a data w = (r1, w1)"
      by (cases "use_template_step a data w")
    from use_template_step_world [OF u] have
      w1: "store w1 = store w" "files w1 = files w" by simp_all
    show ?thesis
    proof (cases r1)
      case (Inl err)
      with assms Inr False u show ?thesis
        by (simp add: main_def io_bind_def io_lift_def)
    next
      case r: (Inr loaded)
      show ?thesis
      proof (cases loaded)
        case None
        with assms Inr False u r w1 show ?thesis
          by (simp add: main_def io_bind_def io_lift_def io_return_def)
      next
        case (Some template_data)
        show ?thesis
        proof (cases "required_from_template template_data")
          case (Inl err)
          with assms Inr False u r Some show ?thesis
            by (simp add: main_def io_bind_def io_lift_def)
        next
          case rft: (Inr from_template)
          have m: "main e a w =
            (if argument_gate a from_template then argument_mode e a template_data data w1
             else if amount_truthy (arg_amount a) \<or> str_truthy (arg_account_holder a)
                     \<or> str_truthy (arg_dolartag a)
             then io_bind (print_all required_arguments_error) (\<lambda>_. io_return (Some 1)) w1
             else io_bind (interactive_mode e) (\<lambda>_. io_return None) w1)"
            using Inr False u r Some rft
            by (simp add: main_def io_bind_def io_lift_def)
          show ?thesis
          proof (cases "argument_gate a from_template")
            case True
            with assms m argument_mode_returns_None [of e a template_data data w1 "Some 1"]
            show ?thesis by simp
          next
            case gate: False
            show ?thesis
            proof (cases "amount_truthy (arg_amount a) \<or> str_truthy (arg_account_holder a)
                          \<or> str_truthy (arg_dolartag a)")
              case True
              with m gate w1 show ?thesis
                by (simp add: io_bind_def print_all_def io_return_def)
            next
              case False
              with assms m gate show ?thesis
                by (auto simp: io_bind_def io_return_def split: prod.splits sum.splits)
            qed
          qed
        qed
      qed
    qed
  qed
qed

text \<open>
  C7: when the template asked for with \<^verbatim>\<open>--use-template\<close> (and without
  \<^verbatim>\<open>--list-templates\<close>, which lists and exits before any template is loaded) is not in
  the store that the program loads, \<^verbatim>\<open>main\<close> prints the two lines of the not-found
  error and returns 1, and nothing but the standard output has changed: the store file,
  hence the counter and the templates, and the output files are as before. Moreover,
  whenever \<^verbatim>\<open>main\<close> returns 1 (the not-found error and the required-arguments error),
  the store file and the output files are as it found them, so that no such failure
  consumes an invoice number.
\<close>

theorem template_not_found_aborts:
  "(load_data (store w) = Inr (VDict kvs)
      \<and> arg_use_template a = Some name \<and> name \<noteq> [] \<and> \<not> arg_list_templates a
      \<and> (map_of kvs ''templates'' = None \<or>
          (\<exists>ts. map_of kvs ''templates'' = Some (VDict ts) \<and> map_of ts name = None))
    \<longrightarrow> main e a w =
          (Inr (Some 1),
           w\<lparr>stdout := stdout w @
                [Print (''Error: Template '' @ [CHR 0x27] @ name @ [CHR 0x27] @ '' not found.''),
                 Print ''Use --list-templates to see available templates.'']\<rparr>)
        \<and> store (snd (main e a w)) = store w
        \<and> stored_counter (store (snd (main e a w))) = stored_counter (store w)
        \<and> files (snd (main e a w)) = files w)
   \<and> (fst (main e a w) = Inr (Some 1)
        \<longrightarrow> store (snd (main e a w)) = store w \<and> files (snd (main e a w)) = files w)"
proof (intro conjI impI)
  assume h: "load_data (store w) = Inr (VDict kvs)
      \<and> arg_use_template a = Some name \<and> name \<noteq> [] \<and> \<not> arg_list_templates a
      \<and> (map_of kvs ''templates'' = None \<or>
          (\<exists>ts. map_of kvs ''templates'' = Some (VDict ts) \<and> map_of ts name = None))"
  then have l: "load_template name (VDict kvs) = Inr VNone"
    using load_template_absent by blast
  from h l show m: "main e a w =
          (Inr (Some 1),
           w\<lparr>stdout := stdout w @
                [Print (''Error: Template '' @ [CHR 0x27] @ name @ [CHR 0x27] @ '' not found.''),
                 Print ''Use --list-templates to see available templates.'']\<rparr>)"
    by (simp add: main_def use_template_step_def io_bind_def io_lift_def io_return_def
        py_print_def)
  show "store (snd (main e a w)) = store w" by (simp add: m)
  show "stored_counter (store (snd (main e a w))) = stored_counter (store w)" by (simp add: m)
  show "files (snd (main e a w)) = files w" by (simp add: m)
next
  assume "fst (main e a w) = Inr (Some 1)"
  then show "store (snd (main e a w)) = store w" "files (snd (main e a w)) = files w"
    using main_return_one_world by blast+
qed
theorem template_not_found_aborts_witness:
  "main example_env
     (no_flags\<lparr>arg_amount := Some (Finite False 5000 0), arg_use_template := Some ''acme''\<rparr>)
     example_world =
     (Inr (Some 1),
      example_world\<lparr>stdout :=
        [Print (''Error: Template '' @ [CHR 0x27] @ ''acme'' @ [CHR 0x27] @ '' not found.''),
         Print ''Use --list-templates to see available templates.'']\<rparr>)
   \<and> stored_counter
        (store (snd (main example_env
           (no_flags\<lparr>arg_amount := Some (Finite False 5000 0),
                     arg_use_template := Some ''acme''\<rparr>)
           example_world))) = Some 7"
proof -
  let ?a = "no_flags\<lparr>arg_amount := Some (Finite False 5000 0), arg_use_template := Some ''acme''\<rparr>"
  have l: "load_data (store example_world) =
           Inr (VDict [(''last_invoice_number'', VInt 7),
                       (''templates'', VDict [(''rexo'', rexo_template)])])"
    by (simp add: example_world_def example_store_def load_data_def)
  have c: "stored_counter (store example_world) = Some 7"
    by (simp add: stored_counter_def l)
  have h: "load_data (store example_world) =
             Inr (VDict [(''last_invoice_number'', VInt 7),
                         (''templates'', VDict [(''rexo'', rexo_template)])])
      \<and> arg_use_template ?a = Some ''acme'' \<and> ''acme'' \<noteq> [] \<and> \<not> arg_list_templates ?a
      \<and> (map_of [(''last_invoice_number'', VInt 7),
                  (''templates'', VDict [(''rexo'', rexo_template)])] ''templates'' = None \<or>
          (\<exists>ts. map_of [(''last_invoice_number'', VInt 7),
                         (''templates'', VDict [(''rexo'', rexo_template)])] ''templates'' =
                   Some (VDict ts) \<and> map_of ts ''acme'' = None))"
    by (simp add: l no_flags_def)
  from template_not_found_aborts
    [of example_world "[(''last_invoice_number'', VInt 7),
                        (''templates'', VDict [(''rexo'', rexo_template)])]" ?a "''acme''"
        example_env] h c
  show ?thesis by (simp add: example_world_def)
qed

section \<open>Rendering\<close>

lemma py_get_dict:
  "py_get (VDict kvs) key d = Inr (case map_of kvs key of None \<Rightarrow> d | Some v \<Rightarrow> v)"
  by (simp split: option.splits)

lemma optional_line_dict: "optional_line (VDict kvs) key mk = Inr (opt_lines kvs key mk)"
  by (simp add: optional_line_def opt_lines_def and_then_def split: option.splits)

lemma description_step:
  "(if truthy (case map_of kvs ''service_period'' of None \<Rightarrow> VNone | Some v \<Rightarrow> v)
    then and_then (getitem (VDict kvs) ''service_period'')
           (\<lambda>p'. Inr (FString [Str_of d0, Lit [newline], Str_of p']))
    else Inr (Obj d0)) =
   Inr (case map_of kvs ''service_period'' of
          None \<Rightarrow> Obj d0
        | Some p \<Rightarrow> if truthy p then FString [Str_of d0, Lit [newline], Str_of p] else Obj d0)"
  by (simp add: and_then_def split: option.splits)

lemma extra_step:
  "(if truthy (case map_of kvs ''additional_payment_info'' of None \<Rightarrow> VNone | Some v \<Rightarrow> v)
    then and_then (getitem (VDict kvs) ''additional_payment_info'')
           (\<lambda>i'. Inr [Lit ''<br/>'', Str_of i'])
    else Inr []) = Inr (remittance_extra kvs)"
  by (simp add: and_then_def remittance_extra_def split: option.splits)

lemma pdf_elements_dict:
  "pdf_elements (VDict kvs) =
     and_then (getitem (VDict kvs) ''invoice_number'') (\<lambda>invoice_number.
     and_then (getitem (VDict kvs) ''issue_date'') (\<lambda>issue_date.
     and_then (getitem (VDict kvs) ''amount'') (\<lambda>a.
     and_then (format_amount a) (\<lambda>amount.
     and_then (getitem (VDict kvs) ''account_holder'') (\<lambda>holder.
     and_then (getitem (VDict kvs) ''dolartag'') (\<lambda>tag.
       Inr (invoice_layout kvs invoice_number issue_date amount holder tag)))))))"
proof -
  have twice: "and_then m (\<lambda>a. and_then (f a) (\<lambda>x. and_then m (\<lambda>a'. and_then (f a') (g x)))) =
               and_then m (\<lambda>a. and_then (f a) (\<lambda>x. g x x))"
    for m :: "error + pyval" and f :: "pyval \<Rightarrow> error + string"
      and g :: "string \<Rightarrow> string \<Rightarrow> error + flowable list"
    by (cases m) (auto simp: and_then_def split: sum.splits)
  show ?thesis
    unfolding pdf_elements_def optional_line_dict py_get_dict and_then_Inr description_step
      extra_step twice
    by (simp add: invoice_layout_def description_cell_def Let_def)
qed














section \<open>A zero amount\<close>

text \<open>The script drops the value that \<^verbatim>\<open>main\<close> returns: the exit status is 0 whenever
  \<^verbatim>\<open>main\<close> returns, the returns of 1 included.\<close>

lemma script_exit_status_on_return:
  "fst (main e a w) = Inr r \<Longrightarrow> script_exit_status e a w = 0"
  by (simp add: script_exit_status_def)

text \<open>
  C10, as the code has it: with \<^verbatim>\<open>--amount 0\<close> the gate of line 413 fails whatever the
  template provides, so argument mode is not entered. When the template step and
  \<^verbatim>\<open>required_from_template\<close> raise nothing, then: if \<^verbatim>\<open>--account-holder\<close> or
  \<^verbatim>\<open>--dolartag\<close> is given and not empty on the command line, \<^verbatim>\<open>main\<close> prints the
  required-arguments error and the help and returns 1, and the store file, hence the
  counter, and the output files are unchanged; if neither is, \<^verbatim>\<open>main\<close> is the
  interactive mode.
\<close>

theorem zero_amount_gate:
  assumes "arg_amount a = Some (Finite s 0 k)"
  shows "\<not> argument_gate a from_template
    \<and> (load_data (store w) = Inr data \<and> \<not> arg_list_templates a
         \<and> use_template_step a data w = (Inr (Some template_data), w1)
         \<and> required_from_template template_data = Inr from_template
       \<longrightarrow> (str_truthy (arg_account_holder a) \<or> str_truthy (arg_dolartag a)
              \<longrightarrow> main e a w =
                    (Inr (Some 1), w1\<lparr>stdout := stdout w1 @ required_arguments_error\<rparr>)
                  \<and> store (snd (main e a w)) = store w
                  \<and> stored_counter (store (snd (main e a w))) = stored_counter (store w)
                  \<and> files (snd (main e a w)) = files w)
           \<and> (\<not> str_truthy (arg_account_holder a) \<and> \<not> str_truthy (arg_dolartag a)
              \<longrightarrow> main e a w = io_bind (interactive_mode e) (\<lambda>_. io_return None) w1))"
proof (intro conjI impI)
  show g: "\<not> argument_gate a from_template" for from_template
    using assms by (simp add: argument_gate_def)
  assume h: "load_data (store w) = Inr data \<and> \<not> arg_list_templates a
         \<and> use_template_step a data w = (Inr (Some template_data), w1)
         \<and> required_from_template template_data = Inr from_template"
  then have u: "use_template_step a data w = (Inr (Some template_data), w1)" by simp
  from use_template_step_world [OF u] have
    w1: "store w1 = store w" "files w1 = files w" by simp_all
  have m: "main e a w =
            (if amount_truthy (arg_amount a) \<or> str_truthy (arg_account_holder a)
                \<or> str_truthy (arg_dolartag a)
             then io_bind (print_all required_arguments_error) (\<lambda>_. io_return (Some 1)) w1
             else io_bind (interactive_mode e) (\<lambda>_. io_return None) w1)"
    using h g [of from_template] by (simp add: main_def io_bind_def io_lift_def)
  {
    assume t: "str_truthy (arg_account_holder a) \<or> str_truthy (arg_dolartag a)"
    with m show r: "main e a w =
        (Inr (Some 1), w1\<lparr>stdout := stdout w1 @ required_arguments_error\<rparr>)"
      by (simp add: io_bind_def print_all_def io_return_def)
    show "store (snd (main e a w)) = store w" by (simp add: r w1)
    show "stored_counter (store (snd (main e a w))) = stored_counter (store w)"
      by (simp add: r w1)
    show "files (snd (main e a w)) = files w" by (simp add: r w1)
  }
  {
    assume "\<not> str_truthy (arg_account_holder a) \<and> \<not> str_truthy (arg_dolartag a)"
    with m assms show "main e a w = io_bind (interactive_mode e) (\<lambda>_. io_return None) w1"
      by simp
  }
qed

theorem zero_amount_gate_witness:
  "main example_env
     (no_flags\<lparr>arg_amount := Some (Finite False 0 0), arg_account_holder := Some ''Jane Doe'',
               arg_dolartag := Some ''$jane''\<rparr>)
     example_world =
     (Inr (Some 1), example_world\<lparr>stdout := required_arguments_error\<rparr>)
   \<and> stored_counter
        (store (snd (main example_env
           (no_flags\<lparr>arg_amount := Some (Finite False 0 0),
                     arg_account_holder := Some ''Jane Doe'', arg_dolartag := Some ''$jane''\<rparr>)
           example_world))) = Some 7"
proof -
  let ?a = "no_flags\<lparr>arg_amount := Some (Finite False 0 0),
              arg_account_holder := Some ''Jane Doe'', arg_dolartag := Some ''$jane''\<rparr>"
  let ?d = "VDict [(''last_invoice_number'', VInt 7),
                   (''templates'', VDict [(''rexo'', rexo_template)])]"
  have a: "arg_amount ?a = Some (Finite False 0 0)" by simp
  have l: "load_data (store example_world) = Inr ?d"
    by (simp add: example_world_def example_store_def load_data_def)
  have c: "stored_counter (store example_world) = Some 7"
    by (simp add: stored_counter_def l)
  have h: "load_data (store example_world) = Inr ?d \<and> \<not> arg_list_templates ?a
         \<and> use_template_step ?a ?d example_world = (Inr (Some (VDict [])), example_world)
         \<and> required_from_template (VDict []) = Inr VNone"
    by (simp add: l no_flags_def use_template_step_def io_return_def
        required_from_template_def and_then_def)
  have t: "str_truthy (arg_account_holder ?a) \<or> str_truthy (arg_dolartag ?a)" by simp
  from zero_amount_gate [OF a, of VNone example_world ?d "VDict []" example_world example_env]
    h t c
  show ?thesis by (simp add: example_world_def)
qed

lemma format_amount_examples:
  "format_amount (VFloat (Finite False 5000 0)) = Inr ''$5,000.00''"
  "format_amount (VFloat (Finite False 2469135 1)) = Inr ''$1,234,567.50''"
  "format_amount (VFloat (Finite False 0 0)) = Inr ''$0.00''"
  "format_amount (VFloat (Finite False 100 0)) = Inr ''$100.00''"
  "format_amount (VFloat (Finite False 2469135 (Suc 0))) = Inr ''$1,234,567.50''"
proof -
  have r: "round_half_even 500000 (Suc 0) = 500000" "round_half_even 246913500 2 = 123456750"
    "round_half_even 0 (Suc 0) = 0" "round_half_even 10000 (Suc 0) = 10000"
    by (simp_all add: round_half_even_def)
  have s: "str_nat 5000 = ''5000''" "str_nat 1234567 = ''1234567''" "str_nat 0 = ''0''"
    "str_nat 100 = ''100''" "str_nat 50 = ''50''"
    by (simp_all add: str_nat.simps digit_char_def)
  have g: "group3 ''5000'' = ''5,000''" "group3 ''1234567'' = ''1,234,567''"
    "group3 ''0'' = ''0''" "group3 ''100'' = ''100''"
    by (simp_all add: group3.simps)
  have z: "zfill 2 ''0'' = ''00''" "zfill 2 ''50'' = ''50''"
    by (simp_all add: zfill_def)
  show "format_amount (VFloat (Finite False 5000 0)) = Inr ''$5,000.00''"
    by (simp add: r s g z Let_def)
  show "format_amount (VFloat (Finite False 2469135 1)) = Inr ''$1,234,567.50''"
    by (simp add: r s g z Let_def)
  show "format_amount (VFloat (Finite False 0 0)) = Inr ''$0.00''"
    by (simp add: r s g z Let_def)
  show "format_amount (VFloat (Finite False 100 0)) = Inr ''$100.00''"
    by (simp add: r s g z Let_def)
  show "format_amount (VFloat (Finite False 2469135 (Suc 0))) = Inr ''$1,234,567.50''"
    by (simp add: r s g z Let_def)
qed

text \<open>
  With \<^verbatim>\<open>--amount 0 --use-template rexo\<close>, the account holder and the dolartag coming
  from the template only, no error is printed and \<^verbatim>\<open>main\<close> does not return 1: the
  program runs the interactive mode, which with the answers below writes an invoice and
  moves the counter from 7 to 8.
\<close>

theorem zero_amount_with_template_counterexample:
  "fst (main example_env
          (no_flags\<lparr>arg_amount := Some (Finite False 0 0), arg_use_template := Some ''rexo''\<rparr>)
          (example_world\<lparr>stdin :=
             [''Acme Corp'', '''', '''', ''100'', '''', ''Jane Doe'', ''$jane'', '''',
              ''zero.pdf'']\<rparr>)) = Inr None
   \<and> stored_counter
        (store (snd (main example_env
           (no_flags\<lparr>arg_amount := Some (Finite False 0 0),
                     arg_use_template := Some ''rexo''\<rparr>)
           (example_world\<lparr>stdin :=
              [''Acme Corp'', '''', '''', ''100'', '''', ''Jane Doe'', ''$jane'', '''',
               ''zero.pdf'']\<rparr>)))) = Some 8
   \<and> files (snd (main example_env
           (no_flags\<lparr>arg_amount := Some (Finite False 0 0),
                     arg_use_template := Some ''rexo''\<rparr>)
           (example_world\<lparr>stdin :=
              [''Acme Corp'', '''', '''', ''100'', '''', ''Jane Doe'', ''$jane'', '''',
               ''zero.pdf'']\<rparr>))) ''zero.pdf'' \<noteq> None
   \<and> stdout (snd (main example_env
           (no_flags\<lparr>arg_amount := Some (Finite False 0 0),
                     arg_use_template := Some ''rexo''\<rparr>)
           (example_world\<lparr>stdin :=
              [''Acme Corp'', '''', '''', ''100'', '''', ''Jane Doe'', ''$jane'', '''',
               ''zero.pdf'']\<rparr>))) =
       [Print ''Loaded template: rexo'',
        Print (newline # ''=== Invoice Generator - Interactive Mode ==='' @ [newline]),
        Print (newline # check_mark @ '' Invoice #0008 generated successfully: zero.pdf'')]"
proof -
  define a where "a = no_flags\<lparr>arg_amount := Some (Finite False 0 0),
                               arg_use_template := Some ''rexo''\<rparr>"
  define w where "w = example_world\<lparr>stdin :=
    [''Acme Corp'', '''', '''', ''100'', '''', ''Jane Doe'', ''$jane'', '''', ''zero.pdf'']\<rparr>"
  define doc where "doc = VDict [(''last_invoice_number'', VInt 7),
                                 (''templates'', VDict [(''rexo'', rexo_template)])]"
  define doc' where "doc' = VDict [(''last_invoice_number'', VInt 8),
                                  (''templates'', VDict [(''rexo'', rexo_template)])]"
  define inv_rec where "inv_rec =
    [(''invoice_number'', VStr ''0008''), (''issue_date'', VStr ''2025-01-31''),
     (''client_name'', VStr ''Acme Corp''), (''client_address'', VStr []),
     (''service_description'', VStr ''Software engineering services''),
     (''amount'', VFloat (Finite False 100 0)), (''account_holder'', VStr ''Jane Doe''),
     (''dolartag'', VStr ''$jane''), (''additional_payment_info'', VStr [])]"
  define written where "written =
    \<lparr>template = letter_template,
     elements = invoice_layout inv_rec (VStr ''0008'') (VStr ''2025-01-31'') ''$100.00''
       (VStr ''Jane Doe'') (VStr ''$jane'')\<rparr>"
  have l: "load_data example_store = Inr doc"
    by (simp add: example_store_def load_data_def doc_def)
  have t: "load_template ''rexo'' doc = Inr rexo_template"
    by (simp add: load_template_def doc_def)
  have nn: "rexo_template \<noteq> VNone" by (simp add: rexo_template_def)
  have rft: "required_from_template rexo_template = Inr (VStr ''$jane'')"
    by (simp add: required_from_template_def rexo_template_def and_then_def)
  have gate: "\<not> argument_gate a v" for v
    by (simp add: argument_gate_def a_def)
  have flags: "arg_list_templates a = False" "arg_use_template a = Some ''rexo''"
    "amount_truthy (arg_amount a) = False" "str_truthy (arg_account_holder a) = False"
    "str_truthy (arg_dolartag a) = False"
    by (simp_all add: a_def no_flags_def)
  have st: "store w = example_store" "stdout w = []"
    by (simp_all add: w_def example_world_def)
  have m: "main example_env a w =
           io_bind (interactive_mode example_env) (\<lambda>_. io_return None)
             (w\<lparr>stdout := [Print ''Loaded template: rexo'']\<rparr>)"
    by (simp add: main_def io_bind_def io_lift_def io_return_def use_template_step_def
        py_print_def l t nn rft gate flags st)
  have s: "strip ''Acme Corp'' = ''Acme Corp''" "strip [] = []" "strip ''100'' = ''100''"
    "strip ''Jane Doe'' = ''Jane Doe''" "strip ''$jane'' = ''$jane''"
    "strip ''zero.pdf'' = ''zero.pdf''"
    by (simp_all add: strip_def is_space_def)
  have n: "next_number_io doc x = (Inr (''0008'', doc'), x\<lparr>store := Parsed doc'\<rparr>)"
    if "store x = example_store" for x
  proof -
    have "str_nat 8 = ''8''" by (simp add: str_nat.simps digit_char_def)
    then have "format_04d_int 8 = ''0008''"
      by (simp add: format_04d_int_def zfill_def numeral_3_eq_3)
    then show ?thesis
      by (simp add: next_number_io_def get_next_invoice_number_def doc_def doc'_def
          save_data_def)
  qed
  have g: "generate_pdf_io (VDict inv_rec) ''zero.pdf'' x =
             (Inr ''zero.pdf'', x\<lparr>files := (files x)(''zero.pdf'' \<mapsto> written)\<rparr>)" for x
    unfolding generate_pdf_io_def generate_pdf_def pdf_elements_dict
    by (simp add: inv_rec_def written_def and_then_def format_amount_examples
        del: format_amount.simps)
  have e: "ensure_pdf ''zero.pdf'' = ''zero.pdf''"
    by (simp add: ensure_pdf_def ends_with_def)
  have i: "interactive_mode example_env (w\<lparr>stdout := [Print ''Loaded template: rexo'']\<rparr>) =
           (Inr (),
            \<lparr>store = Parsed doc', files = [''zero.pdf'' \<mapsto> written],
             stdout =
               [Print ''Loaded template: rexo'',
                Print (newline # ''=== Invoice Generator - Interactive Mode ==='' @ [newline]),
                Print (newline # check_mark @
                       '' Invoice #0008 generated successfully: zero.pdf'')],
             stdin = []\<rparr>)"
    by (simp add: interactive_mode_def io_bind_def io_lift_def py_print_def input_stripped_def
        amount_prompt_def w_def example_world_def example_env_def s l n
        g [unfolded inv_rec_def] e Let_def)
  have c: "stored_counter (Parsed doc') = Some 8"
    by (simp add: stored_counter_def load_data_def doc'_def)
  from m i c show ?thesis
    unfolding a_def [symmetric] w_def [symmetric]
    by (simp add: io_bind_def io_return_def)
qed

end
